theory Spec2Isabelle
  imports Main
begin

section \<open>The Zoom user management script (zoom.py)\<close>

text \<open>
  The script reads a list of user actions, runs one handler per action against the Zoom
  REST API and writes one CSV row per action. The handlers are \<open>update\<close>, \<open>delete\<close> and
  \<open>listusers\<close>; the first two look the user up through \<open>findUserId\<close>.

  The model is a shallow embedding with explicit state passing: the state holds the
  requests sent, the lines printed and the lines logged. The script is Python 2. What
  lies outside the source file is taken as follows.
  \<^item> The remote API (the \<open>requests\<close> calls) is a parameter \<open>api\<close>: a function from the
    requests sent so far and the request being sent to a reply, which is a status code
    with a body, or a raised transport exception.
  \<^item> \<open>json.loads\<close> is not re-implemented: each reply carries, next to its text, the value
    \<open>json.loads\<close> yields on it (\<open>None\<close> when it raises). Numbers are integers.
  \<^item> \<open>generateToken\<close> is taken to succeed; the headers, which are the same on every call,
    are not part of a request.
  \<^item> A Python exception is a value of type \<open>exn\<close>. A printed or logged line that ends
    with the text of an exception keeps the exception itself (\<open>WithExn\<close>).
  \<^item> A text is a list of characters, for the byte strings (\<open>str\<close>) and for the \<open>unicode\<close>
    texts of Python 2 alike. The fields of the input file, the body of a reply and the
    strings of a decoded JSON value are \<open>unicode\<close>; there a character above 127 stands for
    a character outside ASCII. \<open>str\<close> on such a text raises \<open>UnicodeEncodeError\<close>, and so do
    \<open>format\<close> and the CSV writer; a byte string outside ASCII that meets a \<open>unicode\<close> text
    raises \<open>UnicodeDecodeError\<close>.
\<close>

subsection \<open>Data\<close>

datatype meth = GET | PATCH | PUT | DELETE

record request =
  r_meth :: meth
  r_url :: string
  r_json :: "(string \<times> string) list"

datatype json =
    JNull
  | JBool bool
  | JInt int
  | JStr string
  | JList "json list"
  | JDict "(string \<times> json) list"

datatype reply = Reply int string "json option" | Raised

type_synonym api = "request list \<Rightarrow> request \<Rightarrow> reply"

datatype exn =
    RequestException
  | UnboundLocalError
  | IndexError
  | KeyError string
  | TypeError
  | ValueError
  | UnicodeEncodeError
  | UnicodeDecodeError

datatype level = INFO | ERROR | CRITICAL

datatype line = Plain string | WithExn string exn

record state =
  sent :: "request list"
  stdout :: "line list"
  logged :: "(level \<times> line) list"

text \<open>The value \<open>findUserId\<close> returns: \<open>False\<close> or a string.\<close>

datatype pyval = PFalse | PStr string

fun truthy :: "pyval \<Rightarrow> bool" where
  "truthy PFalse = False"
| "truthy (PStr s) = (s \<noteq> [])"

fun py_str :: "pyval \<Rightarrow> string" where
  "py_str PFalse = ''False''"
| "py_str (PStr s) = s"

subsection \<open>Effects\<close>

definition print_line :: "line \<Rightarrow> state \<Rightarrow> state" where
  "print_line l st = st\<lparr>stdout := stdout st @ [l]\<rparr>"

definition logging :: "level \<Rightarrow> line \<Rightarrow> state \<Rightarrow> state" where
  "logging lv l st = st\<lparr>logged := logged st @ [(lv, l)]\<rparr>"

definition send :: "api \<Rightarrow> request \<Rightarrow> state \<Rightarrow> reply \<times> state" where
  "send api rq st = (api (sent st) rq, st\<lparr>sent := sent st @ [rq]\<rparr>)"

definition users_url :: string where
  "users_url = ''https://api.zoom.us/v2/users/''"

subsection \<open>String helpers of Python\<close>

text \<open>Decimal rendering of an integer (\<open>str\<close> and \<open>format\<close> on an \<open>int\<close>).\<close>

fun show_nat :: "nat \<Rightarrow> string" where
  "show_nat n =
     (if n < 10 then [''0123456789'' ! n]
      else show_nat (n div 10) @ [''0123456789'' ! (n mod 10)])"

declare show_nat.simps [simp del]

definition show_int :: "int \<Rightarrow> string" where
  "show_int i = (if i < 0 then CHR ''-'' # show_nat (nat (- i)) else show_nat (nat i))"

text \<open>
  ASCII texts, and \<open>str\<close> on a \<open>unicode\<close> text: the text itself when it is ASCII,
  \<open>UnicodeEncodeError\<close> otherwise.
\<close>

definition is_ascii :: "string \<Rightarrow> bool" where
  "is_ascii s = list_all (\<lambda>c. \<not> digit7 c) s"

definition str_unicode :: "string \<Rightarrow> exn + string" where
  "str_unicode u = (if is_ascii u then Inr u else Inl UnicodeEncodeError)"

text \<open>\<open>p in s\<close> on strings: \<open>p\<close> occurs in \<open>s\<close> as a contiguous block.\<close>

fun starts_with :: "string \<Rightarrow> string \<Rightarrow> bool" where
  "starts_with s [] = True"
| "starts_with [] (p # ps) = False"
| "starts_with (c # cs) (p # ps) = (c = p \<and> starts_with cs ps)"

fun contains :: "string \<Rightarrow> string \<Rightarrow> bool" where
  "contains [] p = (p = [])"
| "contains (c # cs) p = (starts_with (c # cs) p \<or> contains cs p)"

text \<open>\<open>s.split(sep)\<close> for a separator of one character: never the empty list.\<close>

fun split_on :: "char \<Rightarrow> string \<Rightarrow> string list" where
  "split_on sep [] = [[]]"
| "split_on sep (c # cs) =
     (if c = sep then [] # split_on sep cs
      else (case split_on sep cs of
              [] \<Rightarrow> [[c]]
            | w # ws \<Rightarrow> (c # w) # ws))"

text \<open>\<open>s.replace('"', '')\<close>.\<close>

definition strip_quotes :: "string \<Rightarrow> string" where
  "strip_quotes s = filter (\<lambda>c. c \<noteq> CHR 0x22) s"

subsection \<open>The resolver: findUserId\<close>

text \<open>
  The \<open>try\<close> block of \<open>findUserId\<close>. \<open>Inr v\<close>: the block returned \<open>False\<close> or left \<open>v\<close>
  in the local \<open>id\<close>; \<open>Inl e\<close>: it raised \<open>e\<close> with \<open>id\<close> still unassigned. The body of
  the reply is \<open>unicode\<close> and \<open>upn\<close> is a byte string: \<open>upn not in data\<close> decodes \<open>upn\<close>, and
  \<open>str(data)\<close> encodes the body.
\<close>

definition findUserId_try :: "api \<Rightarrow> string \<Rightarrow> state \<Rightarrow> (exn + pyval) \<times> state" where
  \<open>findUserId_try api upn st =
     (case send api \<lparr>r_meth = GET, r_url = users_url @ upn, r_json = []\<rparr> st of
        (Raised, st1) \<Rightarrow> (Inl RequestException, st1)
      | (Reply status_code text js, st1) \<Rightarrow>
          if status_code = 200 then
            if \<not> is_ascii upn then (Inl UnicodeDecodeError, st1)
            else if \<not> contains text upn then (Inr PFalse, st1)
            else
              (case str_unicode text of
                 Inl e \<Rightarrow> (Inl e, st1)
               | Inr str_data \<Rightarrow>
                   let data = split_on CHR '','' str_data;
                       id_lst = split_on CHR '':'' (hd data)
                   in if hd id_lst = ''{"id"'' then
                        (case tl id_lst of
                           [] \<Rightarrow> (Inl IndexError, st1)
                         | x # xs \<Rightarrow> (Inr (PStr (strip_quotes x)), st1))
                      else (Inr PFalse, st1))
          else if status_code = 404 then (Inr PFalse, st1)
          else
            (Inr PFalse,
             logging ERROR (Plain (''Zoom service returned: '' @ show_int status_code))
               (print_line (Plain ''ERROR: Zoom service did not respond correctly'') st1)))\<close>

text \<open>
  The handler of the \<open>try\<close> block prints and logs, and control reaches \<open>return id\<close> with
  \<open>id\<close> unassigned: Python raises \<open>UnboundLocalError\<close> there.
\<close>

definition findUserId :: "api \<Rightarrow> string \<Rightarrow> state \<Rightarrow> (exn + pyval) \<times> state" where
  "findUserId api upn st =
     (case findUserId_try api upn st of
        (Inl e, st1) \<Rightarrow>
          (Inl UnboundLocalError,
           logging ERROR (WithExn (''problem searching for '' @ upn @ '' in Zoom: '') e)
             (print_line (WithExn ''ERROR: problem with user search in Zoom: '' e) st1))
      | (Inr v, st1) \<Rightarrow> (Inr v, st1))"

subsection \<open>The update handler\<close>

text \<open>
  \<open>update\<close> walks over \<open>locals()\<close>, a dictionary of its five parameters. The order in
  which Python visits the keys of a dictionary is not fixed by the source, so it is the
  parameter \<open>params\<close>: the parameter names in the order of the walk.
\<close>

datatype param = P_username | P_newusername | P_loginDisabled | P_givenName | P_sn

fun param_name :: "param \<Rightarrow> string" where
  "param_name P_username = ''username''"
| "param_name P_newusername = ''newusername''"
| "param_name P_loginDisabled = ''loginDisabled''"
| "param_name P_givenName = ''givenName''"
| "param_name P_sn = ''sn''"

fun param_value :: "string \<Rightarrow> string \<Rightarrow> string \<Rightarrow> string \<Rightarrow> string \<Rightarrow> param \<Rightarrow> string" where
  "param_value username newusername loginDisabled givenName sn P_username = username"
| "param_value username newusername loginDisabled givenName sn P_newusername = newusername"
| "param_value username newusername loginDisabled givenName sn P_loginDisabled = loginDisabled"
| "param_value username newusername loginDisabled givenName sn P_givenName = givenName"
| "param_value username newusername loginDisabled givenName sn P_sn = sn"

text \<open>
  The \<open>try\<close> block of the rename. \<open>Returned r\<close>: the block returned \<open>r\<close> from \<open>update\<close>;
  \<open>Proceeds r\<close>: it ended with \<open>r\<close> in the local \<open>result\<close> and \<open>update\<close> goes on.
\<close>

datatype flow = Returned string | Proceeds string

definition rename_try ::
  "api \<Rightarrow> string \<Rightarrow> string \<Rightarrow> string \<Rightarrow> string \<Rightarrow> string \<Rightarrow> pyval \<Rightarrow> state
     \<Rightarrow> (exn + flow) \<times> state" where
  "rename_try api username newusername givenName sn upn uid st =
     (let upnew = newusername @ ''@'' @ ''xyz.com'' in
      case findUserId api upnew st of
        (Inl e, st1) \<Rightarrow> (Inl e, st1)
      | (Inr found, st1) \<Rightarrow>
          if truthy found then
            (Inr (Returned ''ERROR: username already taken!''),
             logging ERROR (Plain (''cannot rename user - user already exists: '' @ newusername))
               (print_line
                 (Plain (''ERROR: cannot rename user - user already exists: '' @ newusername)) st1))
          else
            (case send api \<lparr>r_meth = PATCH, r_url = users_url @ py_str uid,
                     r_json = [(''first_name'', givenName), (''last_name'', sn)]\<rparr> st1 of
               (Raised, st2) \<Rightarrow> (Inl RequestException, st2)
             | (Reply status1 text1 js1, st2) \<Rightarrow>
                 (case send api \<lparr>r_meth = PUT, r_url = users_url @ py_str uid @ ''/email'',
                          r_json = [(''email'', upnew)]\<rparr> st2 of
                    (Raised, st3) \<Rightarrow> (Inl RequestException, st3)
                  | (Reply status_code text js, st3) \<Rightarrow>
                      if status_code \<noteq> 204 then
                        (Inr (Proceeds ''ERROR: could not rename Zoom user.''),
                         print_line (Plain (''ERROR: Could not rename user in Zoom: '' @ upn))
                           (logging ERROR
                             (Plain (''user '' @ upn @ '' was not renamed in Zoom'')) st3))
                      else
                        (Inr (Proceeds ''SUCCESS: user was renamed in Zoom.''),
                         print_line (Plain (''SUCCESS: User '' @ username @ '' renamed in Zoom''))
                           (logging INFO (Plain (''user renamed in Zoom: '' @ username)) st3)))))"

text \<open>The license step: the second \<open>try\<close> block of \<open>update\<close>, with its handler.\<close>

definition license_try ::
  "api \<Rightarrow> string \<Rightarrow> string \<Rightarrow> pyval \<Rightarrow> string \<Rightarrow> state \<Rightarrow> string \<times> state" where
  "license_try api username upn uid type st =
     (case send api \<lparr>r_meth = PATCH, r_url = users_url @ py_str uid,
              r_json = [(''type'', type)]\<rparr> st of
        (Raised, st1) \<Rightarrow>
          (''ERROR: Could not update Zoom user.'',
           logging ERROR (WithExn (''Zoom update failed for: '' @ username @ '': '') RequestException)
             (print_line (WithExn ''ERROR: Could not update user in Zoom: '' RequestException) st1))
      | (Reply status_code text js, st1) \<Rightarrow>
          if status_code \<noteq> 204 then
            (''ERROR: could not update Zoom user.'',
             print_line (Plain (''ERROR: Could not update user in Zoom: '' @ upn))
               (logging ERROR (Plain (''user '' @ upn @ '' was not updated in Zoom'')) st1))
          else
            (''SUCCESS: user was updated in Zoom.'',
             print_line (Plain (''SUCCESS: User '' @ username @ '' updated in Zoom''))
               (logging INFO (Plain (''user updated in Zoom: '' @ username)) st1)))"

definition update ::
  "param list \<Rightarrow> api \<Rightarrow> string \<Rightarrow> string \<Rightarrow> string \<Rightarrow> string \<Rightarrow> string \<Rightarrow> state
     \<Rightarrow> (exn + string) \<times> state" where
  "update params api username newusername loginDisabled givenName sn st =
     (case find (\<lambda>p. param_value username newusername loginDisabled givenName sn p = [])
             params of
        Some item \<Rightarrow>
          (Inr (''ERROR: Missing an expected input value for '' @ param_name item
                  @ '' in input file.''),
           logging ERROR
             (Plain (''unable to update user '' @ username @ '' because '' @ param_name item
                       @ '' is missing a value''))
             (print_line
               (Plain (''ERROR: unable to update user '' @ username @ '' because ''
                         @ param_name item @ '' is missing a value'')) st))
      | None \<Rightarrow>
          let upn = username @ ''@'' @ ''xyz.com'' in
          (case findUserId api upn st of
             (Inl e, st1) \<Rightarrow> (Inl e, st1)
           | (Inr uid, st1) \<Rightarrow>
               if \<not> truthy uid then
                 (Inr ''ERROR: user could not be found in Zoom!'',
                  logging ERROR (Plain (''user does not exist in Zoom: '' @ username))
                    (print_line (Plain (''ERROR: user does not exist in Zoom: '' @ username)) st1))
               else
                 let type = (if loginDisabled = ''True'' then ''1'' else ''2'') in
                 if username \<noteq> newusername then
                   (case rename_try api username newusername givenName sn upn uid st1 of
                      (Inl e, st2) \<Rightarrow>
                        (Inr ''ERROR: Could not rename Zoom user.'',
                         logging ERROR
                           (WithExn (''Zoom user rename failed for: '' @ username @ '': '') e)
                           (print_line (WithExn ''ERROR: Could not rename user in Zoom: '' e) st2))
                    | (Inr (Returned result), st2) \<Rightarrow> (Inr result, st2)
                    | (Inr (Proceeds result), st2) \<Rightarrow>
                        (case license_try api username upn uid type st2 of
                           (result', st3) \<Rightarrow> (Inr result', st3)))
                 else
                   (case license_try api username upn uid type st1 of
                      (result, st2) \<Rightarrow> (Inr result, st2))))"

subsection \<open>The delete handler\<close>

definition delete ::
  "api \<Rightarrow> string \<Rightarrow> state \<Rightarrow> (exn + string) \<times> state" where
  "delete api username st =
     (if username = [] then
        (Inr ''ERROR: Missing an expected input value for username in input file.'',
         logging ERROR
           (Plain ''unable to delete user because username argument is missing a value'')
           (print_line
             (Plain ''ERROR: unable to delete user because username argument is missing a value'')
             st))
      else
        let upn = username @ ''@'' @ ''xyz.com'' in
        (case findUserId api upn st of
           (Inl e, st1) \<Rightarrow> (Inl e, st1)
         | (Inr uid, st1) \<Rightarrow>
             if \<not> truthy uid then
               (Inr ''ERROR: user could not be found in Zoom!'',
                logging ERROR (Plain (''user does not exist in Zoom: '' @ username))
                  (print_line (Plain (''ERROR: user does not exist in Zoom: '' @ username)) st1))
             else
               (case send api \<lparr>r_meth = DELETE, r_url = users_url @ py_str uid,
                        r_json = []\<rparr> st1 of
                  (Raised, st2) \<Rightarrow>
                    (Inr ''ERROR: Could not delete Zoom user.'',
                     logging ERROR
                       (WithExn (''unknown error while deleting user '' @ username @ '': '')
                          RequestException)
                       (print_line
                         (WithExn ''ERROR: unknown error while deleting user: '' RequestException)
                         st2))
                | (Reply status_code text js, st2) \<Rightarrow>
                    if status_code \<noteq> 204 then
                      (Inr ''ERROR: could not delete user in Zoom.'',
                       print_line (Plain (''ERROR: User '' @ username @ '' was not deleted in Zoom''))
                         (logging ERROR (Plain (''user was not deleted in Zoom: '' @ username)) st2))
                    else
                      (Inr ''SUCCESS: user deleted in Zoom.'',
                       print_line (Plain (''SUCCESS: User '' @ username @ '' deleted in Zoom''))
                         (logging INFO (Plain (''user deleted in Zoom: '' @ username)) st2)))))"

subsection \<open>The listusers handler\<close>

text \<open>\<open>v[key]\<close> on a decoded JSON value, for a key that is a string.\<close>

fun subscript :: "json \<Rightarrow> string \<Rightarrow> exn + json" where
  "subscript (JDict kvs) key =
     (case map_of kvs key of None \<Rightarrow> Inl (KeyError key) | Some v \<Rightarrow> Inr v)"
| "subscript v key = Inl TypeError"

text \<open>
  The items a \<open>for\<close> loop visits: the elements of a list, the keys of a dictionary, the
  characters of a string; anything else is not iterable.
\<close>

fun iterate :: "json \<Rightarrow> exn + json list" where
  "iterate (JList vs) = Inr vs"
| "iterate (JDict kvs) = Inr (map (\<lambda>kv. JStr (fst kv)) kvs)"
| "iterate (JStr s) = Inr (map (\<lambda>c. JStr [c]) s)"
| "iterate v = Inl TypeError"

text \<open>Subtraction and truth of integers; \<open>True\<close> and \<open>False\<close> are the integers 1 and 0.\<close>

fun as_int :: "json \<Rightarrow> int option" where
  "as_int (JInt i) = Some i"
| "as_int (JBool b) = Some (if b then 1 else 0)"
| "as_int v = None"

definition py_sub :: "json \<Rightarrow> json \<Rightarrow> exn + int" where
  "py_sub a b =
     (case (as_int a, as_int b) of
        (Some i, Some j) \<Rightarrow> Inr (i - j)
      | _ \<Rightarrow> Inl TypeError)"

text \<open>
  The line printed for one user. The items of the tuple are evaluated in order, \<open>str\<close> of
  the type between the subscripts for the email and for the status; \<open>join\<close> then wants
  strings. \<open>str\<close> on the decoded \<open>type\<close> is Python's own rendering, which raises on a text
  outside ASCII; it is the parameter \<open>render\<close>. The line is kept as text: its encoding as
  UTF-8 is left out.
\<close>

definition user_line :: "(json \<Rightarrow> exn + string) \<Rightarrow> json \<Rightarrow> exn + string" where
  "user_line render user =
     (case subscript user ''id'' of
        Inl e \<Rightarrow> Inl e
      | Inr uid \<Rightarrow>
     (case subscript user ''first_name'' of
        Inl e \<Rightarrow> Inl e
      | Inr first_name \<Rightarrow>
     (case subscript user ''last_name'' of
        Inl e \<Rightarrow> Inl e
      | Inr last_name \<Rightarrow>
     (case subscript user ''email'' of
        Inl e \<Rightarrow> Inl e
      | Inr email \<Rightarrow>
     (case subscript user ''type'' of
        Inl e \<Rightarrow> Inl e
      | Inr type \<Rightarrow>
     (case render type of
        Inl e \<Rightarrow> Inl e
      | Inr str_type \<Rightarrow>
     (case subscript user ''status'' of
        Inl e \<Rightarrow> Inl e
      | Inr status \<Rightarrow>
     (case (uid, first_name, last_name, email, status) of
        (JStr a, JStr b, JStr c, JStr d, JStr f) \<Rightarrow>
          Inr (a @ '','' @ b @ '','' @ c @ '','' @ d @ '','' @ str_type @ '','' @ f)
      | _ \<Rightarrow> Inl TypeError))))))))"

fun print_users :: "(json \<Rightarrow> exn + string) \<Rightarrow> json list \<Rightarrow> state \<Rightarrow> exn option \<times> state" where
  "print_users render [] st = (None, st)"
| "print_users render (user # users) st =
     (case user_line render user of
        Inl e \<Rightarrow> (Some e, st)
      | Inr l \<Rightarrow> print_users render users (print_line (Plain l) st))"

text \<open>
  One pass through the body of the \<open>while\<close> loop: it breaks with a result, raises, or
  reaches the end of the body with a new value of \<open>PagesLeft\<close>.
\<close>

datatype pass = Broke string | Threw exn | Looped int

definition page_url :: "int \<Rightarrow> string" where
  "page_url currentPage =
     ''https://api.zoom.us/v2/users?page_size=300'' @ ''&page_number='' @ show_int currentPage"

definition page_body :: "(json \<Rightarrow> exn + string) \<Rightarrow> api \<Rightarrow> int \<Rightarrow> state \<Rightarrow> pass \<times> state" where
  "page_body render api currentPage st =
     (case send api \<lparr>r_meth = GET, r_url = page_url currentPage, r_json = []\<rparr> st of
        (Raised, st1) \<Rightarrow> (Threw RequestException, st1)
      | (Reply status_code text js, st1) \<Rightarrow>
          if status_code \<noteq> 200 then
            (Broke ''ERROR: did not get list of Zoom users.'',
             print_line (Plain ''ERROR: did not get list of Zoom users'')
               (logging ERROR (Plain ''did not get list of Zoom users'') st1))
          else
            (case js of
               None \<Rightarrow> (Threw ValueError, st1)
             | Some jsondata \<Rightarrow>
                 let st2 = (if currentPage = 1
                            then print_line (Plain ''id,first_name,last_name,email,type,status'') st1
                            else st1)
                 in
                 (case subscript jsondata ''users'' of
                    Inl e \<Rightarrow> (Threw e, st2)
                  | Inr users \<Rightarrow>
                      (case iterate users of
                         Inl e \<Rightarrow> (Threw e, st2)
                       | Inr items \<Rightarrow>
                           (case print_users render items st2 of
                              (Some e, st3) \<Rightarrow> (Threw e, st3)
                            | (None, st3) \<Rightarrow>
                                (case subscript jsondata ''page_count'' of
                                   Inl e \<Rightarrow> (Threw e, st3)
                                 | Inr page_count \<Rightarrow>
                                     (case subscript jsondata ''page_number'' of
                                        Inl e \<Rightarrow> (Threw e, st3)
                                      | Inr page_number \<Rightarrow>
                                          (case py_sub page_count page_number of
                                             Inl e \<Rightarrow> (Threw e, st3)
                                           | Inr pagesLeft \<Rightarrow>
                                               (Looped pagesLeft,
                                                logging INFO (Plain ''got the list of Zoom users'')
                                                  st3)))))))))"

text \<open>
  The \<open>while PagesLeft\<close> loop, entered with \<open>PagesLeft = 1\<close>. It may run forever:
  \<open>None\<close> is the loop that never ends.
\<close>

partial_function (option) paging ::
  "(json \<Rightarrow> exn + string) \<Rightarrow> api \<Rightarrow> int \<Rightarrow> state \<Rightarrow> ((exn + string) \<times> state) option" where
  "paging render api currentPage st =
     (case page_body render api currentPage st of
        (Broke result, st1) \<Rightarrow> Some (Inr result, st1)
      | (Threw e, st1) \<Rightarrow> Some (Inl e, st1)
      | (Looped pagesLeft, st1) \<Rightarrow>
          if pagesLeft \<noteq> 0 then paging render api (currentPage + 1) st1
          else Some (Inr ''SUCCESS: got the list of Zoom users.'', st1))"

definition listusers ::
  "(json \<Rightarrow> exn + string) \<Rightarrow> api \<Rightarrow> state \<Rightarrow> (string \<times> state) option" where
  "listusers render api st =
     (case paging render api 1 st of
        None \<Rightarrow> None
      | Some (Inl e, st1) \<Rightarrow>
          Some (''ERROR: Could not get the list of Zoom users.'',
                logging ERROR
                  (WithExn ''unknown error while getting the list of Zoom users: '' e)
                  (print_line
                    (WithExn ''ERROR: unknown error while getting the list of Zoom users: '' e)
                    st1))
      | Some (Inr result, st1) \<Rightarrow> Some (result, st1))"

subsection \<open>The batch runner: main\<close>

text \<open>
  One entry of \<open>useractions\<close>, with its six fields present as \<open>unicode\<close> texts, and the CSV
  file as the list of the rows written. The input and output files are taken as opened.
\<close>

record useraction =
  a_action :: string
  a_username :: string
  a_newusername :: string
  a_loginDisabled :: string
  a_givenName :: string
  a_sn :: string

text \<open>
  The choice of the handler. \<open>main\<close> applies \<open>str\<close> to every field it passes on, so a
  handler only ever receives ASCII byte strings; \<open>format\<close> on an action outside ASCII
  raises before anything is printed.
\<close>

definition dispatch ::
  "param list \<Rightarrow> (json \<Rightarrow> exn + string) \<Rightarrow> api \<Rightarrow> useraction \<Rightarrow> state
     \<Rightarrow> ((exn + string) \<times> state) option" where
  "dispatch params render api row st =
     (if a_action row = ''update'' then
        (if is_ascii (a_username row) \<and> is_ascii (a_newusername row)
            \<and> is_ascii (a_loginDisabled row) \<and> is_ascii (a_givenName row)
            \<and> is_ascii (a_sn row)
         then Some (update params api (a_username row) (a_newusername row)
                      (a_loginDisabled row) (a_givenName row) (a_sn row) st)
         else Some (Inl UnicodeEncodeError, st))
      else if a_action row = ''delete'' then
        (if is_ascii (a_username row) then Some (delete api (a_username row) st)
         else Some (Inl UnicodeEncodeError, st))
      else if a_action row = ''listusers'' then
        (case listusers render api st of
           None \<Rightarrow> None
         | Some (result, st1) \<Rightarrow> Some (Inr result, st1))
      else if \<not> is_ascii (a_action row) then Some (Inl UnicodeEncodeError, st)
      else
        Some (Inr ''ERROR: Unrecognized action.'',
              logging ERROR (Plain (''unrecognized action: '' @ a_action row))
                (print_line (Plain (''ERROR: unrecognized action: '' @ a_action row)) st)))"

text \<open>
  The \<open>for\<close> loop of \<open>main\<close>: it ends at the end of the list, or at the first exception
  that leaves a handler or the CSV writer, which encodes the action and the user name;
  the rows written so far stay in the file.
\<close>

fun main_loop ::
  "param list \<Rightarrow> (json \<Rightarrow> exn + string) \<Rightarrow> api \<Rightarrow> useraction list \<Rightarrow> string list list
     \<Rightarrow> state \<Rightarrow> (exn option \<times> string list list \<times> state) option" where
  "main_loop params render api [] out st = Some (None, out, st)"
| "main_loop params render api (row # rows) out st =
     (case dispatch params render api row st of
        None \<Rightarrow> None
      | Some (Inl e, st1) \<Rightarrow> Some (Some e, out, st1)
      | Some (Inr result, st1) \<Rightarrow>
          if is_ascii (a_action row) \<and> is_ascii (a_username row) then
            main_loop params render api rows
              (out @ [[a_action row, a_username row, result]]) st1
          else Some (Some UnicodeEncodeError, out, st1))"

text \<open>
  \<open>main\<close> from the header row on; the log lines about opening and closing the files are
  left out. Its last handler prints and logs the exception together with the text of the
  source line that was running; that text is left out of the line.
\<close>

definition main ::
  "param list \<Rightarrow> (json \<Rightarrow> exn + string) \<Rightarrow> api \<Rightarrow> useraction list \<Rightarrow> state
     \<Rightarrow> (string list list \<times> state) option" where
  "main params render api useractions st =
     (case main_loop params render api useractions [[''action'', ''username'', ''result'']] st of
        None \<Rightarrow> None
      | Some (None, out, st1) \<Rightarrow> Some (out, st1)
      | Some (Some e, out, st1) \<Rightarrow>
          Some (out,
                logging CRITICAL (WithExn ''unknown error while processing line: '' e)
                  (print_line (WithExn ''ERROR: unknown error while processing line: '' e) st1)))"

subsection \<open>Example inputs\<close>

text \<open>
  Concrete behaviours of the API and of \<open>str\<close>, used where a property is run on an
  input: an API whose every call raises; an API that answers every page request with an
  empty page reporting page 0 of 0; an API that reads the page number from the URL of
  the request, echoes it, and reports no pages or three pages, the latter with one user
  who has no status; and \<open>str\<close> on numbers and texts (the inputs render nothing else).
\<close>

definition api_down :: api where
  "api_down h rq = Raised"

definition api_page_0_of_0 :: api where
  "api_page_0_of_0 h rq =
     Reply 200 [] (Some (JDict [(''page_count'', JInt 0), (''page_number'', JInt 0),
                                (''users'', JList [])]))"

fun render_scalar :: "json \<Rightarrow> exn + string" where
  "render_scalar (JInt i) = Inr (show_int i)"
| "render_scalar (JStr s) = str_unicode s"
| "render_scalar v = Inr []"

definition read_nat :: "string \<Rightarrow> nat" where
  "read_nat s = foldl (\<lambda>n c. 10 * n + (of_char c - 48)) 0 s"

definition requested_page :: "request \<Rightarrow> int" where
  "requested_page rq =
     int (read_nat (drop (length ''https://api.zoom.us/v2/users?page_size=300&page_number='')
                      (r_url rq)))"

definition api_echo_no_pages :: api where
  "api_echo_no_pages h rq =
     Reply 200 [] (Some (JDict [(''page_count'', JInt 0),
                                (''page_number'', JInt (requested_page rq)),
                                (''users'', JList [])]))"

definition api_user_without_status :: api where
  "api_user_without_status h rq =
     Reply 200 []
       (Some (JDict [(''page_count'', JInt 3),
                     (''page_number'', JInt (requested_page rq)),
                     (''users'', JList [JDict [(''id'', JStr ''u1''), (''first_name'', JStr ''Ann''),
                                              (''last_name'', JStr ''Lee''),
                                              (''email'', JStr ''ann@xyz.com''),
                                              (''type'', JInt 1)]])]))"

section \<open>Properties\<close>

subsection \<open>Basic facts\<close>

lemma split_on_ne [simp]: "split_on sep s \<noteq> []"
  by (induction s) (auto split: list.splits)

lemma hd_tl_cons: "l \<noteq> [] \<Longrightarrow> hd l = a \<Longrightarrow> tl l = t \<Longrightarrow> l = a # t"
  by (cases l) auto

lemma sent_print_line [simp]: "sent (print_line l st) = sent st"
  and stdout_print_line [simp]: "stdout (print_line l st) = stdout st @ [l]"
  and logged_print_line [simp]: "logged (print_line l st) = logged st"
  by (simp_all add: print_line_def)

lemma sent_logging [simp]: "sent (logging lv l st) = sent st"
  and stdout_logging [simp]: "stdout (logging lv l st) = stdout st"
  and logged_logging [simp]: "logged (logging lv l st) = logged st @ [(lv, l)]"
  by (simp_all add: logging_def)

subsection \<open>The resolver\<close>

lemma is_ascii_append [simp]: "is_ascii (xs @ ys) \<longleftrightarrow> is_ascii xs \<and> is_ascii ys"
  by (simp add: is_ascii_def)

text \<open>
  C10. \<open>findUserId\<close> returns an id exactly when the reply to its lookup request has
  status 200, the address is ASCII, the body contains it and is ASCII too, and the text
  before the first comma, split at colons, starts with \<open>{"id"\<close> and has a second piece;
  the id is that piece without its double quotes. It returns \<open>False\<close> on status 404
  (logging nothing), on any other status than 200 and 404 (logging the service error with
  the status), and, for an ASCII address, on a 200 reply whose body does not contain the
  address. The addresses that \<open>update\<close> and \<open>delete\<close> are given by \<open>main\<close> are ASCII, since
  \<open>main\<close> applies \<open>str\<close> to the user names; with an address outside ASCII, a 200 reply
  makes \<open>findUserId\<close> raise.
\<close>

theorem findUserId_contract:
  assumes run: "findUserId api upn st = (r, st')"
    and rep: "api (sent st) \<lparr>r_meth = GET, r_url = users_url @ upn, r_json = []\<rparr> = rep"
  shows \<open>((\<exists>v. r = Inr (PStr v)) \<longleftrightarrow>
            (\<exists>text js x xs. rep = Reply 200 text js \<and> is_ascii upn \<and> contains text upn
               \<and> is_ascii text
               \<and> split_on CHR '':'' (hd (split_on CHR '','' text)) = ''{"id"'' # x # xs))
        \<and> (\<forall>text js x xs. rep = Reply 200 text js \<and> is_ascii upn \<and> contains text upn
               \<and> is_ascii text
               \<and> split_on CHR '':'' (hd (split_on CHR '','' text)) = ''{"id"'' # x # xs
             \<longrightarrow> r = Inr (PStr (strip_quotes x)))
        \<and> (\<forall>text js. rep = Reply 404 text js \<longrightarrow> r = Inr PFalse \<and> logged st' = logged st)
        \<and> (\<forall>status text js. rep = Reply status text js \<and> status \<noteq> 200 \<and> status \<noteq> 404 \<longrightarrow>
              r = Inr PFalse
              \<and> logged st'
                  = logged st @ [(ERROR, Plain (''Zoom service returned: '' @ show_int status))])
        \<and> (\<forall>text js. rep = Reply 200 text js \<and> is_ascii upn \<and> \<not> contains text upn \<longrightarrow>
              r = Inr PFalse)
        \<and> (\<forall>text js. rep = Reply 200 text js
                \<and> (\<not> is_ascii upn \<or> contains text upn \<and> \<not> is_ascii text) \<longrightarrow>
              r = Inl UnboundLocalError)\<close>
proof (cases rep)
  case Raised
  with run rep show ?thesis
    by (auto simp: findUserId_def findUserId_try_def send_def)
next
  case (Reply status body js)
  show ?thesis
  proof (cases "status = 200 \<and> is_ascii upn \<and> contains body upn \<and> is_ascii body")
    case False
    with run rep Reply show ?thesis
      by (auto simp: findUserId_def findUserId_try_def send_def str_unicode_def
               split: if_splits)
  next
    case True
    have ne: "split_on CHR '':'' (hd (split_on CHR '','' body)) \<noteq> []" by simp
    from True run rep Reply show ?thesis
      by (auto simp: findUserId_def findUserId_try_def send_def Let_def str_unicode_def
               split: if_splits list.splits dest: hd_tl_cons [OF ne])
  qed
qed

theorem findUserId_contract_witness:
  \<open>fst (findUserId (\<lambda>h rq. Reply 200 ''{"id":"abc","email":"joe@xyz.com"}'' None) ''joe@xyz.com''
          \<lparr>sent = [], stdout = [], logged = []\<rparr>) = Inr (PStr ''abc'')
   \<and> fst (findUserId (\<lambda>h rq. Reply 404 [] None) ''joe@xyz.com''
          \<lparr>sent = [], stdout = [], logged = []\<rparr>) = Inr PFalse
   \<and> logged (snd (findUserId (\<lambda>h rq. Reply 500 [] None) ''joe@xyz.com''
          \<lparr>sent = [], stdout = [], logged = []\<rparr>))
       = [(ERROR, Plain ''Zoom service returned: 500'')]
   \<and> fst (findUserId (\<lambda>h rq. Reply 200 ''{"id":"abc"}'' None) ''joe@xyz.com''
          \<lparr>sent = [], stdout = [], logged = []\<rparr>) = Inr PFalse
   \<and> fst (findUserId
          (\<lambda>h rq. Reply 200 (''{"id":"abc","email":"joe@xyz.com","first_name":"Jos''
                             @ [CHR 0xE9] @ ''"}'') None)
          ''joe@xyz.com'' \<lparr>sent = [], stdout = [], logged = []\<rparr>) = Inl UnboundLocalError\<close>
proof -
  let ?s = "\<lparr>sent = [], stdout = [], logged = []\<rparr>"
  let ?u = "''joe@xyz.com''"
  let ?b = \<open>''{"id":"abc","email":"joe@xyz.com"}''\<close>
  let ?l = \<open>''{"id":"abc","email":"joe@xyz.com","first_name":"Jos'' @ [CHR 0xE9] @ ''"}''\<close>
  have u: "is_ascii ?u" by (simp add: is_ascii_def)
  have c: "contains ?b ?u" by simp
  have a: "is_ascii ?b" by (simp add: is_ascii_def)
  have s: \<open>split_on CHR '':'' (hd (split_on CHR '','' ?b)) = [''{"id"'', ''"abc"'']\<close> by simp
  have q: \<open>strip_quotes ''"abc"'' = ''abc''\<close> by (simp add: strip_quotes_def)
  have n: \<open>\<not> contains ''{"id":"abc"}'' ?u\<close> by simp
  have d: "show_int 500 = ''500''" by (simp add: show_int_def show_nat.simps)
  have cl: "contains ?l ?u" by simp
  have al: "\<not> is_ascii ?l" by (simp add: is_ascii_def)
  have 1: "fst (findUserId (\<lambda>h rq. Reply 200 ?b None) ?u ?s) = Inr (PStr ''abc'')"
    using findUserId_contract [of "\<lambda>h rq. Reply 200 ?b None" ?u ?s _ _ "Reply 200 ?b None",
        OF surjective_pairing refl] u c a s q by auto
  have 2: "fst (findUserId (\<lambda>h rq. Reply 404 [] None) ?u ?s) = Inr PFalse"
    using findUserId_contract [of "\<lambda>h rq. Reply 404 [] None" ?u ?s _ _ "Reply 404 [] None",
        OF surjective_pairing refl] by auto
  have 3: "logged (snd (findUserId (\<lambda>h rq. Reply 500 [] None) ?u ?s))
             = [(ERROR, Plain ''Zoom service returned: 500'')]"
    using findUserId_contract [of "\<lambda>h rq. Reply 500 [] None" ?u ?s _ _ "Reply 500 [] None",
        OF surjective_pairing refl] d by auto
  have 4: \<open>fst (findUserId (\<lambda>h rq. Reply 200 ''{"id":"abc"}'' None) ?u ?s) = Inr PFalse\<close>
    using findUserId_contract [of \<open>\<lambda>h rq. Reply 200 ''{"id":"abc"}'' None\<close> ?u ?s _ _
        \<open>Reply 200 ''{"id":"abc"}'' None\<close>, OF surjective_pairing refl] u n by auto
  have 5: "fst (findUserId (\<lambda>h rq. Reply 200 ?l None) ?u ?s) = Inl UnboundLocalError"
    using findUserId_contract [of "\<lambda>h rq. Reply 200 ?l None" ?u ?s _ _ "Reply 200 ?l None",
        OF surjective_pairing refl] cl al by blast
  from 1 2 3 4 5 show ?thesis by blast
qed

subsection \<open>The update handler\<close>

lemma findUserId_sent:
  "sent (snd (findUserId api upn st))
     = sent st @ [\<lparr>r_meth = GET, r_url = users_url @ upn, r_json = []\<rparr>]"
  by (cases "api (sent st) \<lparr>r_meth = GET, r_url = users_url @ upn, r_json = []\<rparr>")
     (auto simp: findUserId_def findUserId_try_def send_def Let_def
           split: list.splits sum.splits)

lemma findUserId_sentD:
  "findUserId api upn st = (r, st1) \<Longrightarrow>
     sent st1 = sent st @ [\<lparr>r_meth = GET, r_url = users_url @ upn, r_json = []\<rparr>]"
  using findUserId_sent [of api upn st] by simp

lemma find_param_None:
  "username \<noteq> [] \<Longrightarrow> newusername \<noteq> [] \<Longrightarrow> loginDisabled \<noteq> [] \<Longrightarrow> givenName \<noteq> []
     \<Longrightarrow> sn \<noteq> [] \<Longrightarrow>
   find (\<lambda>p. param_value username newusername loginDisabled givenName sn p = []) params = None"
proof -
  assume a: "username \<noteq> []" "newusername \<noteq> []" "loginDisabled \<noteq> []" "givenName \<noteq> []" "sn \<noteq> []"
  have "param_value username newusername loginDisabled givenName sn p \<noteq> []" for p
    using a by (cases p) simp_all
  then show ?thesis by (simp add: find_None_iff)
qed

lemma license_try_sent:
  "license_try api username upn uid type st = (r, st') \<Longrightarrow>
     sent st' = sent st @ [\<lparr>r_meth = PATCH, r_url = users_url @ py_str uid,
                            r_json = [(''type'', type)]\<rparr>]
   \<and> (r = ''SUCCESS: user was updated in Zoom.'' \<or> r = ''ERROR: could not update Zoom user.''
        \<or> r = ''ERROR: Could not update Zoom user.'')"
  by (cases "api (sent st) \<lparr>r_meth = PATCH, r_url = users_url @ py_str uid,
                            r_json = [(''type'', type)]\<rparr>")
     (auto simp: license_try_def send_def split: if_splits)

lemma rename_try_sent:
  assumes "rename_try api username newusername givenName sn upn uid st = (x, st')"
  shows "\<exists>new. sent st' = sent st @ new
            \<and> (\<forall>rq \<in> set new. ''type'' \<notin> fst ` set (r_json rq))
            \<and> (\<forall>r. x = Inr (Returned r) \<longrightarrow> r = ''ERROR: username already taken!'')"
proof -
  obtain v st1 where f: "findUserId api (newusername @ ''@'' @ ''xyz.com'') st = (v, st1)"
    by (cases "findUserId api (newusername @ ''@'' @ ''xyz.com'') st")
  note s = findUserId_sentD [OF f]
  from assms f s show ?thesis
    by (auto simp: rename_try_def send_def Let_def
             split: sum.splits if_splits reply.splits)
qed

lemmas run_defs = update_def rename_try_def license_try_def findUserId_def findUserId_try_def
  send_def Let_def users_url_def strip_quotes_def print_line_def logging_def is_ascii_def
  str_unicode_def

text \<open>
  C5. When the walk visits the five parameters and at least one of them is the empty
  string, \<open>update\<close> returns \<open>ERROR: Missing an expected input value for <field> in input
  file.\<close>, where \<open><field>\<close> is the name of a parameter that is empty, and sends no
  request at all.
\<close>

theorem update_missing_value:
  assumes walk: "set params = {P_username, P_newusername, P_loginDisabled, P_givenName, P_sn}"
    and empty: "username = [] \<or> newusername = [] \<or> loginDisabled = [] \<or> givenName = [] \<or> sn = []"
  shows "\<exists>item st'.
           param_value username newusername loginDisabled givenName sn item = []
         \<and> update params api username newusername loginDisabled givenName sn st
             = (Inr (''ERROR: Missing an expected input value for '' @ param_name item
                       @ '' in input file.''), st')
         \<and> sent st' = sent st"
proof -
  let ?P = "\<lambda>p. param_value username newusername loginDisabled givenName sn p = []"
  from empty obtain p where "?P p"
    by (metis param_value.simps)
  moreover have "p \<in> set params" using walk by (cases p) simp_all
  ultimately have "find ?P params \<noteq> None" by (auto simp: find_None_iff)
  then obtain item where f: "find ?P params = Some item" by blast
  then have "?P item" by (auto simp: find_Some_iff)
  with f show ?thesis by (auto simp: update_def intro!: exI [of _ item])
qed

theorem update_missing_value_witness:
  "update [P_sn, P_givenName, P_loginDisabled, P_username, P_newusername]
       (\<lambda>h rq. Raised) ''joe'' ''joe'' ''True'' [] ''Doe'' \<lparr>sent = [], stdout = [], logged = []\<rparr>
     = (Inr ''ERROR: Missing an expected input value for givenName in input file.'',
        \<lparr>sent = [],
          stdout = [Plain ''ERROR: unable to update user joe because givenName is missing a value''],
          logged = [(ERROR, Plain ''unable to update user joe because givenName is missing a value'')]\<rparr>)"
proof -
  let ?params = "[P_sn, P_givenName, P_loginDisabled, P_username, P_newusername]"
  have "set ?params = {P_username, P_newusername, P_loginDisabled, P_givenName, P_sn}" by auto
  from update_missing_value [OF this, of "''joe''" "''joe''" "''True''" "[]" "''Doe''"
      "\<lambda>h rq. Raised" "\<lparr>sent = [], stdout = [], logged = []\<rparr>"]
  obtain item st' where
    "param_value ''joe'' ''joe'' ''True'' [] ''Doe'' item = []"
    "update ?params (\<lambda>h rq. Raised) ''joe'' ''joe'' ''True'' [] ''Doe''
        \<lparr>sent = [], stdout = [], logged = []\<rparr>
      = (Inr (''ERROR: Missing an expected input value for '' @ param_name item
                @ '' in input file.''), st')"
    by auto
  then show ?thesis
    by (cases item) (simp_all add: update_def print_line_def logging_def)
qed

text \<open>
  C6. For an update action that passes validation (its five fields are not empty) with
  \<open>newusername\<close> different from \<open>username\<close>: when the lookup of the current handle
  returns an id and the lookup of the new handle returns an id too, \<open>update\<close> returns
  \<open>ERROR: username already taken!\<close> and the two lookups are the only requests it sends:
  no rename call and no license call.
\<close>

theorem update_username_taken:
  assumes "username \<noteq> []" "newusername \<noteq> []" "loginDisabled \<noteq> []" "givenName \<noteq> []"
      "sn \<noteq> []"
    and differs: "username \<noteq> newusername"
    and current: "findUserId api (username @ ''@'' @ ''xyz.com'') st = (Inr uid, st1)" "truthy uid"
    and taken: "findUserId api (newusername @ ''@'' @ ''xyz.com'') st1 = (Inr uid', st2)"
      "truthy uid'"
  shows "\<exists>st'. update params api username newusername loginDisabled givenName sn st
                 = (Inr ''ERROR: username already taken!'', st')
          \<and> sent st'
              = sent st
                @ [\<lparr>r_meth = GET, r_url = users_url @ username @ ''@'' @ ''xyz.com'', r_json = []\<rparr>,
                   \<lparr>r_meth = GET, r_url = users_url @ newusername @ ''@'' @ ''xyz.com'',
                     r_json = []\<rparr>]"
  using assms findUserId_sentD [OF current(1)] findUserId_sentD [OF taken(1)]
  by (simp add: update_def find_param_None rename_try_def Let_def)

theorem update_username_taken_witness:
  \<open>fst (update [] (\<lambda>h rq. [Reply 200 ''{"id":"abc","email":"joe@xyz.com"}'' None,
                            Reply 200 ''{"id":"xyz","email":"jim@xyz.com"}'' None] ! length h)
          ''joe'' ''jim'' ''False'' ''Joe'' ''Doe'' \<lparr>sent = [], stdout = [], logged = []\<rparr>)
     = Inr ''ERROR: username already taken!''\<close>
proof -
  let ?api = \<open>\<lambda>(h :: request list) (rq :: request).
                [Reply 200 ''{"id":"abc","email":"joe@xyz.com"}'' None,
                 Reply 200 ''{"id":"xyz","email":"jim@xyz.com"}'' None] ! length h\<close>
  let ?s = "\<lparr>sent = [], stdout = [], logged = []\<rparr>"
  let ?s1 = "\<lparr>sent = [\<lparr>r_meth = GET, r_url = users_url @ ''joe'' @ ''@'' @ ''xyz.com'', r_json = []\<rparr>],
              stdout = [], logged = []\<rparr>"
  have 1: "findUserId ?api (''joe'' @ ''@'' @ ''xyz.com'') ?s = (Inr (PStr ''abc''), ?s1)"
    by (simp add: run_defs)
  have 2: "findUserId ?api (''jim'' @ ''@'' @ ''xyz.com'') ?s1
             = (Inr (PStr ''xyz''), snd (findUserId ?api (''jim'' @ ''@'' @ ''xyz.com'') ?s1))"
    by (simp add: run_defs)
  from update_username_taken [of "''joe''" "''jim''" "''False''" "''Joe''" "''Doe''" ?api ?s
      "PStr ''abc''" ?s1 "PStr ''xyz''" _ "[]", OF _ _ _ _ _ _ 1 _ 2]
  show ?thesis by auto
qed

text \<open>
  C7. An update action reaches the license step when it passes validation, the lookup
  of the current handle returns an id and, if it renames, the new handle is free and the
  two rename calls are answered. The last request \<open>update\<close> then sends is the \<open>PATCH\<close> of
  the user with the payload \<open>type = "1"\<close> when \<open>loginDisabled\<close> is the string \<open>True\<close> and
  \<open>type = "2"\<close> for every other value: it follows the lookup when the names are the same,
  and the two rename calls otherwise. No other request of \<open>update\<close> carries a \<open>type\<close>.
\<close>

theorem update_license_payload:
  assumes valid: "username \<noteq> []" "newusername \<noteq> []" "loginDisabled \<noteq> []" "givenName \<noteq> []"
      "sn \<noteq> []"
    and current: "findUserId api (username @ ''@'' @ ''xyz.com'') st = (Inr uid, st1)" "truthy uid"
    and license: "license_rq = \<lparr>r_meth = PATCH, r_url = users_url @ py_str uid,
                    r_json = [(''type'', if loginDisabled = ''True'' then ''1'' else ''2'')]\<rparr>"
    and run: "update params api username newusername loginDisabled givenName sn st = (r, st')"
  shows "(username = newusername \<longrightarrow> sent st' = sent st1 @ [license_rq])
       \<and> (\<forall>uid' st2 name_rq email_rq status1 body1 js1 status2 body2 js2.
             username \<noteq> newusername
           \<and> findUserId api (newusername @ ''@'' @ ''xyz.com'') st1 = (Inr uid', st2)
           \<and> \<not> truthy uid'
           \<and> name_rq = \<lparr>r_meth = PATCH, r_url = users_url @ py_str uid,
                          r_json = [(''first_name'', givenName), (''last_name'', sn)]\<rparr>
           \<and> api (sent st2) name_rq = Reply status1 body1 js1
           \<and> email_rq = \<lparr>r_meth = PUT, r_url = users_url @ py_str uid @ ''/email'',
                           r_json = [(''email'', newusername @ ''@'' @ ''xyz.com'')]\<rparr>
           \<and> api (sent st2 @ [name_rq]) email_rq = Reply status2 body2 js2
           \<longrightarrow> sent st' = sent st2 @ [name_rq, email_rq, license_rq])
       \<and> (\<exists>new. sent st' = sent st @ new
              \<and> (\<forall>rq \<in> set new. ''type'' \<in> fst ` set (r_json rq) \<longrightarrow> rq = license_rq))"
proof -
  let ?upn = "username @ ''@'' @ ''xyz.com''"
  let ?type = "if loginDisabled = ''True'' then ''1'' else ''2''"
  note s1 = findUserId_sentD [OF current(1)]
  note none = find_param_None [OF valid, of params]
  show ?thesis
  proof (cases "username = newusername")
    case True
    obtain res st2 where l: "license_try api username ?upn uid ?type st1 = (res, st2)"
      by (cases "license_try api username ?upn uid ?type st1")
    from license_try_sent [OF l] run none current s1 True l license show ?thesis
      by (auto simp: update_def)
  next
    case False
    obtain x st2 where rn:
      "rename_try api username newusername givenName sn ?upn uid st1 = (x, st2)"
      by (cases "rename_try api username newusername givenName sn ?upn uid st1")
    from rename_try_sent [OF rn] obtain new where
      new: "sent st2 = sent st1 @ new" "\<forall>rq \<in> set new. ''type'' \<notin> fst ` set (r_json rq)"
      by blast
    have other: "\<exists>new. sent st' = sent st @ new
                   \<and> (\<forall>rq \<in> set new. ''type'' \<in> fst ` set (r_json rq) \<longrightarrow> rq = license_rq)"
    proof (cases x)
      case (Inl e)
      with run none current s1 False rn new show ?thesis
        by (auto simp: update_def)
    next
      case x: (Inr fl)
      show ?thesis
      proof (cases fl)
        case (Returned res)
        with run none current s1 False rn new x show ?thesis
          by (auto simp: update_def)
      next
        case (Proceeds res)
        obtain res' st3 where l: "license_try api username ?upn uid ?type st2 = (res', st3)"
          by (cases "license_try api username ?upn uid ?type st2")
        from license_try_sent [OF l] run none current s1 False rn new x Proceeds l license
        show ?thesis
          by (auto simp: update_def)
      qed
    qed
    have renamed: "sent st' = sent st2' @ [name_rq, email_rq, license_rq]"
      if free: "findUserId api (newusername @ ''@'' @ ''xyz.com'') st1 = (Inr uid', st2')"
          "\<not> truthy uid'"
        and name: "name_rq = \<lparr>r_meth = PATCH, r_url = users_url @ py_str uid,
                          r_json = [(''first_name'', givenName), (''last_name'', sn)]\<rparr>"
          "api (sent st2') name_rq = Reply status1 body1 js1"
        and email: "email_rq = \<lparr>r_meth = PUT, r_url = users_url @ py_str uid @ ''/email'',
                           r_json = [(''email'', newusername @ ''@'' @ ''xyz.com'')]\<rparr>"
          "api (sent st2' @ [name_rq]) email_rq = Reply status2 body2 js2"
      for uid' st2' name_rq email_rq status1 body1 js1 status2 body2 js2
    proof -
      obtain res st3 where
        rn': "rename_try api username newusername givenName sn ?upn uid st1
                = (Inr (Proceeds res), st3)"
        and s3: "sent st3 = sent st2' @ [name_rq, email_rq]"
        using free name email
        by (cases "status2 = 204") (simp_all add: rename_try_def send_def Let_def)
      obtain res' st4 where l: "license_try api username ?upn uid ?type st3 = (res', st4)"
        by (cases "license_try api username ?upn uid ?type st3")
      have "update params api username newusername loginDisabled givenName sn st
              = (Inr res', st4)"
        using none current False rn' l by (simp add: update_def Let_def)
      with run have "st' = st4" by simp
      with license_try_sent [OF l] s3 license show ?thesis by simp
    qed
    from False other renamed show ?thesis by blast
  qed
qed

theorem update_license_payload_witness:
  \<open>map (\<lambda>loginDisabled.
          sent (snd (update [P_username, P_newusername, P_loginDisabled, P_givenName, P_sn]
            (\<lambda>h rq. [Reply 200 ''{"id":"abc","email":"joe@xyz.com"}'' None, Reply 204 [] None]
                       ! length h)
            ''joe'' ''joe'' loginDisabled ''Joe'' ''Doe'' \<lparr>sent = [], stdout = [], logged = []\<rparr>)))
      [''True'', ''False'', ''true'']
    = map (\<lambda>type.
          [\<lparr>r_meth = GET, r_url = ''https://api.zoom.us/v2/users/joe@xyz.com'', r_json = []\<rparr>,
           \<lparr>r_meth = PATCH, r_url = ''https://api.zoom.us/v2/users/abc'',
             r_json = [(''type'', type)]\<rparr>])
      [''1'', ''2'', ''2'']
   \<and> sent (snd (update [P_username, P_newusername, P_loginDisabled, P_givenName, P_sn]
            (\<lambda>h rq. [Reply 200 ''{"id":"abc","email":"joe@xyz.com"}'' None, Reply 404 [] None,
                       Reply 204 [] None, Reply 204 [] None, Reply 204 [] None] ! length h)
            ''joe'' ''jim'' ''True'' ''Joe'' ''Doe'' \<lparr>sent = [], stdout = [], logged = []\<rparr>))
     = [\<lparr>r_meth = GET, r_url = ''https://api.zoom.us/v2/users/joe@xyz.com'', r_json = []\<rparr>,
        \<lparr>r_meth = GET, r_url = ''https://api.zoom.us/v2/users/jim@xyz.com'', r_json = []\<rparr>,
        \<lparr>r_meth = PATCH, r_url = ''https://api.zoom.us/v2/users/abc'',
          r_json = [(''first_name'', ''Joe''), (''last_name'', ''Doe'')]\<rparr>,
        \<lparr>r_meth = PUT, r_url = ''https://api.zoom.us/v2/users/abc/email'',
          r_json = [(''email'', ''jim@xyz.com'')]\<rparr>,
        \<lparr>r_meth = PATCH, r_url = ''https://api.zoom.us/v2/users/abc'',
          r_json = [(''type'', ''1'')]\<rparr>]\<close>
proof -
  let ?api = \<open>\<lambda>(h :: request list) (rq :: request).
                [Reply 200 ''{"id":"abc","email":"joe@xyz.com"}'' None, Reply 204 [] None] ! length h\<close>
  let ?api' = \<open>\<lambda>(h :: request list) (rq :: request).
                [Reply 200 ''{"id":"abc","email":"joe@xyz.com"}'' None, Reply 404 [] None,
                 Reply 204 [] None, Reply 204 [] None, Reply 204 [] None] ! length h\<close>
  let ?s = "\<lparr>sent = [], stdout = [], logged = []\<rparr>"
  let ?params = "[P_username, P_newusername, P_loginDisabled, P_givenName, P_sn]"
  let ?g1 = "\<lparr>r_meth = GET, r_url = users_url @ ''joe'' @ ''@'' @ ''xyz.com'', r_json = []\<rparr>"
  let ?g2 = "\<lparr>r_meth = GET, r_url = users_url @ ''jim'' @ ''@'' @ ''xyz.com'', r_json = []\<rparr>"
  let ?s1 = "\<lparr>sent = [?g1], stdout = [], logged = []\<rparr>"
  let ?s2 = "\<lparr>sent = [?g1, ?g2], stdout = [], logged = []\<rparr>"
  have ne: "''joe'' \<noteq> []" "''jim'' \<noteq> []" "''Joe'' \<noteq> []" "''Doe'' \<noteq> []" "''True'' \<noteq> []"
    by simp_all
  have t: "truthy (PStr ''abc'')" by simp
  have 1: "findUserId ?api (''joe'' @ ''@'' @ ''xyz.com'') ?s = (Inr (PStr ''abc''), ?s1)"
    by (simp add: run_defs)
  have same: "sent (snd (update ?params ?api ''joe'' ''joe'' ld ''Joe'' ''Doe'' ?s))
                = [\<lparr>r_meth = GET, r_url = ''https://api.zoom.us/v2/users/joe@xyz.com'', r_json = []\<rparr>,
                   \<lparr>r_meth = PATCH, r_url = ''https://api.zoom.us/v2/users/abc'',
                     r_json = [(''type'', if ld = ''True'' then ''1'' else ''2'')]\<rparr>]"
    if "ld \<noteq> []" for ld
  proof -
    note u = update_license_payload [OF ne(1) ne(1) that ne(3) ne(4) 1 t refl surjective_pairing,
        of ?params]
    from conjunct1 [OF u] show ?thesis
      by (simp add: users_url_def)
  qed
  have j1: "findUserId ?api' (''joe'' @ ''@'' @ ''xyz.com'') ?s = (Inr (PStr ''abc''), ?s1)"
    by (simp add: run_defs)
  have j2: "findUserId ?api' (''jim'' @ ''@'' @ ''xyz.com'') ?s1 = (Inr PFalse, ?s2)"
    by (simp add: run_defs)
  have j3: "?api' (sent ?s2) rq = Reply 204 [] None" for rq :: request by simp
  have j4: "?api' (sent ?s2 @ [rq']) rq = Reply 204 [] None" for rq rq' :: request by simp
  have renamed: "sent (snd (update ?params ?api' ''joe'' ''jim'' ''True'' ''Joe'' ''Doe'' ?s))
     = [\<lparr>r_meth = GET, r_url = ''https://api.zoom.us/v2/users/joe@xyz.com'', r_json = []\<rparr>,
        \<lparr>r_meth = GET, r_url = ''https://api.zoom.us/v2/users/jim@xyz.com'', r_json = []\<rparr>,
        \<lparr>r_meth = PATCH, r_url = ''https://api.zoom.us/v2/users/abc'',
          r_json = [(''first_name'', ''Joe''), (''last_name'', ''Doe'')]\<rparr>,
        \<lparr>r_meth = PUT, r_url = ''https://api.zoom.us/v2/users/abc/email'',
          r_json = [(''email'', ''jim@xyz.com'')]\<rparr>,
        \<lparr>r_meth = PATCH, r_url = ''https://api.zoom.us/v2/users/abc'',
          r_json = [(''type'', ''1'')]\<rparr>]"
  proof -
    note u = update_license_payload [OF ne(1) ne(2) ne(5) ne(3) ne(4) j1 t refl
        surjective_pairing, of ?params]
    let ?name = "\<lparr>r_meth = PATCH, r_url = users_url @ py_str (PStr ''abc''),
                   r_json = [(''first_name'', ''Joe''), (''last_name'', ''Doe'')]\<rparr>"
    let ?email = "\<lparr>r_meth = PUT, r_url = users_url @ py_str (PStr ''abc'') @ ''/email'',
                    r_json = [(''email'', ''jim'' @ ''@'' @ ''xyz.com'')]\<rparr>"
    have d: "''joe'' \<noteq> ''jim''" by simp
    note r = conjunct1 [OF conjunct2 [OF u], rule_format,
        of PFalse ?s2 ?name 204 "[]" None ?email 204 "[]" None]
    have "sent (snd (update ?params ?api' ''joe'' ''jim'' ''True'' ''Joe'' ''Doe'' ?s))
            = sent ?s2
              @ [?name, ?email,
                 \<lparr>r_meth = PATCH, r_url = users_url @ py_str (PStr ''abc''),
                   r_json = [(''type'', if ''True'' = ''True'' then ''1'' else ''2'')]\<rparr>]"
    proof (rule r, intro conjI)
      show "''joe'' \<noteq> ''jim''" by (rule d)
      show "findUserId ?api' (''jim'' @ ''@'' @ ''xyz.com'') ?s1 = (Inr PFalse, ?s2)" by (rule j2)
      show "\<not> truthy PFalse" by simp
      show "?name = ?name" by (rule refl)
      show "?api' (sent ?s2) ?name = Reply 204 [] None" by (rule j3)
      show "?email = ?email" by (rule refl)
      show "?api' (sent ?s2 @ [?name]) ?email = Reply 204 [] None" by (rule j4)
    qed
    then show ?thesis by (simp add: users_url_def)
  qed
  have l: "''True'' \<noteq> []" "''False'' \<noteq> []" "''true'' \<noteq> []" by simp_all
  from same [OF l(1)] same [OF l(2)] same [OF l(3)] renamed
  show ?thesis by simp
qed

text \<open>
  C3. The rename sends the \<open>PATCH\<close> of the names and then the \<open>PUT\<close> of the email, but the
  reply to the \<open>PATCH\<close> is overwritten unread. Here the \<open>PATCH\<close> is answered with status 500
  and the \<open>PUT\<close> with 204: the rename block ends with \<open>SUCCESS: user was renamed in Zoom.\<close>
  in \<open>result\<close>, prints and logs the success, and \<open>update\<close> goes on to the license step.
\<close>

theorem rename_ignores_name_status:
  \<open>update [P_username, P_newusername, P_loginDisabled, P_givenName, P_sn]
      (\<lambda>h rq. [Reply 200 ''{"id":"abc","email":"joe@xyz.com"}'' None, Reply 404 [] None,
                Reply 500 [] None, Reply 204 [] None, Reply 204 [] None] ! length h)
      ''joe'' ''jim'' ''False'' ''Joe'' ''Doe'' \<lparr>sent = [], stdout = [], logged = []\<rparr>
    = (Inr ''SUCCESS: user was updated in Zoom.'',
       \<lparr>sent = [\<lparr>r_meth = GET, r_url = ''https://api.zoom.us/v2/users/joe@xyz.com'', r_json = []\<rparr>,
                 \<lparr>r_meth = GET, r_url = ''https://api.zoom.us/v2/users/jim@xyz.com'', r_json = []\<rparr>,
                 \<lparr>r_meth = PATCH, r_url = ''https://api.zoom.us/v2/users/abc'',
                   r_json = [(''first_name'', ''Joe''), (''last_name'', ''Doe'')]\<rparr>,
                 \<lparr>r_meth = PUT, r_url = ''https://api.zoom.us/v2/users/abc/email'',
                   r_json = [(''email'', ''jim@xyz.com'')]\<rparr>,
                 \<lparr>r_meth = PATCH, r_url = ''https://api.zoom.us/v2/users/abc'',
                   r_json = [(''type'', ''2'')]\<rparr>],
         stdout = [Plain ''SUCCESS: User joe renamed in Zoom'',
                   Plain ''SUCCESS: User joe updated in Zoom''],
         logged = [(INFO, Plain ''user renamed in Zoom: joe''),
                   (INFO, Plain ''user updated in Zoom: joe'')]\<rparr>)
   \<and> fst (rename_try
        (\<lambda>h rq. [Reply 200 ''{"id":"abc","email":"joe@xyz.com"}'' None, Reply 404 [] None,
                  Reply 500 [] None, Reply 204 [] None, Reply 204 [] None] ! length h)
        ''joe'' ''jim'' ''Joe'' ''Doe'' ''joe@xyz.com'' (PStr ''abc'')
        \<lparr>sent = [\<lparr>r_meth = GET, r_url = ''https://api.zoom.us/v2/users/joe@xyz.com'',
                    r_json = []\<rparr>],
          stdout = [], logged = []\<rparr>)
     = Inr (Proceeds ''SUCCESS: user was renamed in Zoom.'')\<close>
  by (simp add: run_defs)

text \<open>
  C4. For an update action that passes validation and renames (the current handle is
  found, the new one is free), where the \<open>PATCH\<close> of the names is answered and the \<open>PUT\<close>
  of the email is answered with a status other than 204: the rename block leaves
  \<open>ERROR: could not rename Zoom user.\<close> in \<open>result\<close> without returning, \<open>update\<close> sends the
  license \<open>PATCH\<close> after the two rename calls, and when that \<open>PATCH\<close> is answered with 204
  the result of \<open>update\<close> is \<open>SUCCESS: user was updated in Zoom.\<close>
\<close>

theorem update_rename_error_overwritten:
  assumes "username \<noteq> []" "newusername \<noteq> []" "loginDisabled \<noteq> []" "givenName \<noteq> []"
      "sn \<noteq> []"
    and differs: "username \<noteq> newusername"
    and current: "findUserId api (username @ ''@'' @ ''xyz.com'') st = (Inr uid, st1)" "truthy uid"
    and free: "findUserId api (newusername @ ''@'' @ ''xyz.com'') st1 = (Inr uid', st2)"
      "\<not> truthy uid'"
    and name: "name_rq = \<lparr>r_meth = PATCH, r_url = users_url @ py_str uid,
                          r_json = [(''first_name'', givenName), (''last_name'', sn)]\<rparr>"
      "api (sent st2) name_rq = Reply status1 body1 js1"
    and email: "email_rq = \<lparr>r_meth = PUT, r_url = users_url @ py_str uid @ ''/email'',
                            r_json = [(''email'', newusername @ ''@'' @ ''xyz.com'')]\<rparr>"
      "api (sent st2 @ [name_rq]) email_rq = Reply status2 body2 js2" "status2 \<noteq> 204"
    and license: "license_rq = \<lparr>r_meth = PATCH, r_url = users_url @ py_str uid,
                    r_json = [(''type'', if loginDisabled = ''True'' then ''1'' else ''2'')]\<rparr>"
  shows "fst (rename_try api username newusername givenName sn (username @ ''@'' @ ''xyz.com'')
                 uid st1)
           = Inr (Proceeds ''ERROR: could not rename Zoom user.'')
       \<and> sent (snd (update params api username newusername loginDisabled givenName sn st))
           = sent st2 @ [name_rq, email_rq, license_rq]
       \<and> (\<forall>body3 js3. api (sent st2 @ [name_rq, email_rq]) license_rq = Reply 204 body3 js3 \<longrightarrow>
             fst (update params api username newusername loginDisabled givenName sn st)
               = Inr ''SUCCESS: user was updated in Zoom.'')"
proof -
  let ?upn = "username @ ''@'' @ ''xyz.com''"
  let ?type = "if loginDisabled = ''True'' then ''1'' else ''2''"
  obtain st3 where
    rn: "rename_try api username newusername givenName sn ?upn uid st1
           = (Inr (Proceeds ''ERROR: could not rename Zoom user.''), st3)"
    and s3: "sent st3 = sent st2 @ [name_rq, email_rq]"
    using free name email by (simp add: rename_try_def send_def Let_def)
  obtain res st4 where l: "license_try api username ?upn uid ?type st3 = (res, st4)"
    by (cases "license_try api username ?upn uid ?type st3")
  have u: "update params api username newusername loginDisabled givenName sn st = (Inr res, st4)"
    using assms(1-8) rn l by (simp add: update_def find_param_None Let_def)
  have "sent st4 = sent st2 @ [name_rq, email_rq, license_rq]"
    using license_try_sent [OF l] s3 license by simp
  moreover have "res = ''SUCCESS: user was updated in Zoom.''"
    if "api (sent st2 @ [name_rq, email_rq]) license_rq = Reply 204 body3 js3" for body3 js3
    using l that s3 license by (simp add: license_try_def send_def)
  ultimately show ?thesis using rn u by simp
qed

theorem update_rename_error_overwritten_witness:
  \<open>update [P_username, P_newusername, P_loginDisabled, P_givenName, P_sn]
      (\<lambda>h rq. [Reply 200 ''{"id":"abc","email":"joe@xyz.com"}'' None, Reply 404 [] None,
                Reply 204 [] None, Reply 500 [] None, Reply 204 [] None] ! length h)
      ''joe'' ''jim'' ''False'' ''Joe'' ''Doe'' \<lparr>sent = [], stdout = [], logged = []\<rparr>
    = (Inr ''SUCCESS: user was updated in Zoom.'',
       \<lparr>sent = [\<lparr>r_meth = GET, r_url = ''https://api.zoom.us/v2/users/joe@xyz.com'', r_json = []\<rparr>,
                 \<lparr>r_meth = GET, r_url = ''https://api.zoom.us/v2/users/jim@xyz.com'', r_json = []\<rparr>,
                 \<lparr>r_meth = PATCH, r_url = ''https://api.zoom.us/v2/users/abc'',
                   r_json = [(''first_name'', ''Joe''), (''last_name'', ''Doe'')]\<rparr>,
                 \<lparr>r_meth = PUT, r_url = ''https://api.zoom.us/v2/users/abc/email'',
                   r_json = [(''email'', ''jim@xyz.com'')]\<rparr>,
                 \<lparr>r_meth = PATCH, r_url = ''https://api.zoom.us/v2/users/abc'',
                   r_json = [(''type'', ''2'')]\<rparr>],
         stdout = [Plain ''ERROR: Could not rename user in Zoom: joe@xyz.com'',
                   Plain ''SUCCESS: User joe updated in Zoom''],
         logged = [(ERROR, Plain ''user joe@xyz.com was not renamed in Zoom''),
                   (INFO, Plain ''user updated in Zoom: joe'')]\<rparr>)\<close>
proof -
  let ?api = \<open>\<lambda>(h :: request list) (rq :: request).
       [Reply 200 ''{"id":"abc","email":"joe@xyz.com"}'' None, Reply 404 [] None,
        Reply 204 [] None, Reply 500 [] None, Reply 204 [] None] ! length h\<close>
  let ?params = "[P_username, P_newusername, P_loginDisabled, P_givenName, P_sn]"
  let ?s = "\<lparr>sent = [], stdout = [], logged = []\<rparr>"
  let ?g1 = "\<lparr>r_meth = GET, r_url = users_url @ ''joe'' @ ''@'' @ ''xyz.com'', r_json = []\<rparr>"
  let ?g2 = "\<lparr>r_meth = GET, r_url = users_url @ ''jim'' @ ''@'' @ ''xyz.com'', r_json = []\<rparr>"
  let ?s1 = "\<lparr>sent = [?g1], stdout = [], logged = []\<rparr>"
  let ?s2 = "\<lparr>sent = [?g1, ?g2], stdout = [], logged = []\<rparr>"
  have 1: "findUserId ?api (''joe'' @ ''@'' @ ''xyz.com'') ?s = (Inr (PStr ''abc''), ?s1)"
    by (simp add: run_defs)
  have 2: "findUserId ?api (''jim'' @ ''@'' @ ''xyz.com'') ?s1 = (Inr PFalse, ?s2)"
    by (simp add: run_defs)
  have 3: "?api (sent ?s2) rq = Reply 204 [] None" for rq :: request by simp
  have 4: "?api (sent ?s2 @ [rq']) rq = Reply 500 [] None" for rq rq' :: request by simp
  have 5: "?api (sent ?s2 @ [rq', rq'']) rq = Reply 204 [] None" for rq rq' rq'' :: request
    by simp
  from update_rename_error_overwritten [of "''joe''" "''jim''" "''False''" "''Joe''" "''Doe''"
      ?api ?s "PStr ''abc''" ?s1 PFalse ?s2 _ 204 "[]" None _ 500 "[]" None _ ?params,
      OF _ _ _ _ _ _ 1 _ 2 _ refl 3 refl 4 _ refl] 5
  have "fst (update ?params ?api ''joe'' ''jim'' ''False'' ''Joe'' ''Doe'' ?s)
          = Inr ''SUCCESS: user was updated in Zoom.''"
    by simp
  moreover have "snd (update ?params ?api ''joe'' ''jim'' ''False'' ''Joe'' ''Doe'' ?s)
     = \<lparr>sent = [\<lparr>r_meth = GET, r_url = ''https://api.zoom.us/v2/users/joe@xyz.com'', r_json = []\<rparr>,
                 \<lparr>r_meth = GET, r_url = ''https://api.zoom.us/v2/users/jim@xyz.com'', r_json = []\<rparr>,
                 \<lparr>r_meth = PATCH, r_url = ''https://api.zoom.us/v2/users/abc'',
                   r_json = [(''first_name'', ''Joe''), (''last_name'', ''Doe'')]\<rparr>,
                 \<lparr>r_meth = PUT, r_url = ''https://api.zoom.us/v2/users/abc/email'',
                   r_json = [(''email'', ''jim@xyz.com'')]\<rparr>,
                 \<lparr>r_meth = PATCH, r_url = ''https://api.zoom.us/v2/users/abc'',
                   r_json = [(''type'', ''2'')]\<rparr>],
         stdout = [Plain ''ERROR: Could not rename user in Zoom: joe@xyz.com'',
                   Plain ''SUCCESS: User joe updated in Zoom''],
         logged = [(ERROR, Plain ''user joe@xyz.com was not renamed in Zoom''),
                   (INFO, Plain ''user updated in Zoom: joe'')]\<rparr>"
    by (simp add: run_defs)
  ultimately show ?thesis by (simp add: prod_eq_iff)
qed

subsection \<open>The listusers handler\<close>

lemma print_users_ok:
  "list_all2 (\<lambda>u l. user_line render u = Inr l) us ls \<Longrightarrow>
     print_users render us st = (None, st\<lparr>stdout := stdout st @ map Plain ls\<rparr>)"
proof (induction us ls arbitrary: st rule: list_all2_induct)
  case Nil
  show ?case by simp
next
  case (Cons u l us ls)
  then show ?case by (simp add: print_line_def)
qed

text \<open>
  A pass of the loop body that prints every user and reaches the end of the body.
\<close>

lemma page_body_ok:
  assumes reply: "api (sent st) \<lparr>r_meth = GET, r_url = page_url p, r_json = []\<rparr>
                    = Reply 200 body (Some jsondata)"
    and users: "subscript jsondata ''users'' = Inr users" "iterate users = Inr us"
      "list_all2 (\<lambda>u l. user_line render u = Inr l) us ls"
    and pages: "subscript jsondata ''page_count'' = Inr page_count"
      "subscript jsondata ''page_number'' = Inr page_number"
      "as_int page_count = Some c" "as_int page_number = Some n"
  shows "page_body render api p st
           = (Looped (c - n),
              st\<lparr>sent := sent st @ [\<lparr>r_meth = GET, r_url = page_url p, r_json = []\<rparr>],
                 stdout := stdout st
                   @ (if p = 1 then [Plain ''id,first_name,last_name,email,type,status''] else [])
                   @ map Plain ls,
                 logged := logged st @ [(INFO, Plain ''got the list of Zoom users'')]\<rparr>)"
  using reply users(1,2) pages
  by (simp add: page_body_def send_def Let_def print_users_ok [OF users(3)] py_sub_def
        print_line_def logging_def)

lemma page_body_list_ok:
  assumes reply: "api (sent st) \<lparr>r_meth = GET, r_url = page_url p, r_json = []\<rparr>
                    = Reply 200 body (Some (JDict kvs))"
    and users: "map_of kvs ''users'' = Some (JList us)"
      "list_all2 (\<lambda>u l. user_line render u = Inr l) us ls"
    and pages: "map_of kvs ''page_count'' = Some (JInt c)"
      "map_of kvs ''page_number'' = Some (JInt n)"
  shows "page_body render api p st
           = (Looped (c - n),
              st\<lparr>sent := sent st @ [\<lparr>r_meth = GET, r_url = page_url p, r_json = []\<rparr>],
                 stdout := stdout st
                   @ (if p = 1 then [Plain ''id,first_name,last_name,email,type,status''] else [])
                   @ map Plain ls,
                 logged := logged st @ [(INFO, Plain ''got the list of Zoom users'')]\<rparr>)"
proof (rule page_body_ok [where api = api and st = st and p = p and render = render])
  show "api (sent st) \<lparr>r_meth = GET, r_url = page_url p, r_json = []\<rparr>
          = Reply 200 body (Some (JDict kvs))"
    by (rule reply)
  show "subscript (JDict kvs) ''users'' = Inr (JList us)" by (simp add: users(1))
  show "iterate (JList us) = Inr us" by simp
  show "list_all2 (\<lambda>u l. user_line render u = Inr l) us ls" by (rule users(2))
  show "subscript (JDict kvs) ''page_count'' = Inr (JInt c)" by (simp add: pages(1))
  show "subscript (JDict kvs) ''page_number'' = Inr (JInt n)" by (simp add: pages(2))
  show "as_int (JInt c) = Some c" by simp
  show "as_int (JInt n) = Some n" by simp
qed

lemma page_url_123:
  "page_url 1 = ''https://api.zoom.us/v2/users?page_size=300&page_number=1''"
  "page_url 2 = ''https://api.zoom.us/v2/users?page_size=300&page_number=2''"
  "page_url 3 = ''https://api.zoom.us/v2/users?page_size=300&page_number=3''"
  by (simp_all add: page_url_def show_int_def show_nat.simps)

text \<open>What a pass of the loop body tells about the reply it got.\<close>

lemma page_body_Broke:
  "page_body render api p st = (Broke r, st1) \<Longrightarrow>
     r = ''ERROR: did not get list of Zoom users.''
     \<and> (\<exists>rq status body js. sent st1 = sent st @ [rq] \<and> api (sent st) rq = Reply status body js
            \<and> status \<noteq> 200)"
  by (cases "api (sent st) \<lparr>r_meth = GET, r_url = page_url p, r_json = []\<rparr>")
     (auto simp: page_body_def send_def Let_def
           split: if_splits option.splits sum.splits prod.splits)

lemma print_users_sent: "print_users render us st = (x, st1) \<Longrightarrow> sent st1 = sent st"
  by (induction us arbitrary: st) (auto split: sum.splits)

lemma page_body_Looped:
  assumes "page_body render api p st = (Looped k, st1)"
  shows "\<exists>rq body jsondata page_count page_number i j.
           sent st1 = sent st @ [rq] \<and> api (sent st) rq = Reply 200 body (Some jsondata)
         \<and> subscript jsondata ''page_count'' = Inr page_count
         \<and> subscript jsondata ''page_number'' = Inr page_number
         \<and> as_int page_count = Some i \<and> as_int page_number = Some j \<and> k = i - j"
proof (cases "api (sent st) \<lparr>r_meth = GET, r_url = page_url p, r_json = []\<rparr>")
  case Raised
  with assms show ?thesis by (simp add: page_body_def send_def)
next
  case (Reply status body js)
  with assms show ?thesis
    by (auto simp: page_body_def send_def Let_def py_sub_def
             split: if_splits option.splits sum.splits prod.splits
             dest: print_users_sent)
qed

lemma paging_Some:
  assumes "paging render api p st = Some y"
  shows "(\<exists>e st'. y = (Inl e, st'))
       \<or> (\<exists>st'. y = (Inr ''ERROR: did not get list of Zoom users.'', st')
             \<and> (\<exists>h rq status body js. sent st' = h @ [rq] \<and> api h rq = Reply status body js
                    \<and> status \<noteq> 200))
       \<or> (\<exists>st'. y = (Inr ''SUCCESS: got the list of Zoom users.'', st')
             \<and> (\<exists>h rq body jsondata page_count page_number i.
                    sent st' = h @ [rq] \<and> api h rq = Reply 200 body (Some jsondata)
                  \<and> subscript jsondata ''page_count'' = Inr page_count
                  \<and> subscript jsondata ''page_number'' = Inr page_number
                  \<and> as_int page_count = Some i \<and> as_int page_number = Some i))"
  using assms
proof (induction rule: paging.raw_induct [rotated 1, consumes 1])
  case (1 paging' render api p st y)
  obtain ps st1 where b: "page_body render api p st = (ps, st1)"
    by (cases "page_body render api p st")
  show ?case
  proof (cases ps)
    case (Broke r)
    with 1(2) b page_body_Broke [of render api p st r st1] show ?thesis by auto
  next
    case (Threw e)
    with 1(2) b show ?thesis by auto
  next
    case (Looped k)
    show ?thesis
    proof (cases "k = 0")
      case True
      with 1(2) b Looped page_body_Looped [of render api p st k st1] show ?thesis by auto
    next
      case False
      with 1(2) b Looped have "paging' render api (p + 1) st1 = Some y" by simp
      then show ?thesis by (rule 1(1))
    qed
  qed
qed

text \<open>
  The loop never ends when each reply it receives is a well-formed page that reports
  fewer pages than its own page number. \<open>h\<close> is what was sent before the loop started;
  pass \<open>k\<close> of the loop, counted from 0, requests page \<open>k + 1\<close>.
\<close>

lemma paging_None:
  assumes good: "\<And>k. \<exists>body jsondata users us ls page_count page_number c n.
             api (h @ map (\<lambda>i. \<lparr>r_meth = GET, r_url = page_url (int i + 1), r_json = []\<rparr>) [0..<k])
                 \<lparr>r_meth = GET, r_url = page_url (int k + 1), r_json = []\<rparr>
               = Reply 200 body (Some jsondata)
           \<and> subscript jsondata ''users'' = Inr users \<and> iterate users = Inr us
           \<and> list_all2 (\<lambda>u l. user_line render u = Inr l) us ls
           \<and> subscript jsondata ''page_count'' = Inr page_count
           \<and> subscript jsondata ''page_number'' = Inr page_number
           \<and> as_int page_count = Some c \<and> as_int page_number = Some n \<and> c < n"
    and start: "sent st = h @ map (\<lambda>i. \<lparr>r_meth = GET, r_url = page_url (int i + 1), r_json = []\<rparr>)
                               [0..<k]"
  shows "paging render api (int k + 1) st = None"
proof (rule ccontr)
  let ?rq = "\<lambda>i. \<lparr>r_meth = GET, r_url = page_url (int i + 1), r_json = []\<rparr>"
  let ?good = "\<lambda>render api. \<forall>k. \<exists>body jsondata users us ls page_count page_number c n.
             api (h @ map ?rq [0..<k]) (?rq k) = Reply 200 body (Some jsondata)
           \<and> subscript jsondata ''users'' = Inr users \<and> iterate users = Inr us
           \<and> list_all2 (\<lambda>u l. user_line render u = Inr l) us ls
           \<and> subscript jsondata ''page_count'' = Inr page_count
           \<and> subscript jsondata ''page_number'' = Inr page_number
           \<and> as_int page_count = Some c \<and> as_int page_number = Some n \<and> c < n"
  have never: "\<forall>k. ?good render api \<longrightarrow> p = int k + 1 \<longrightarrow> sent st = h @ map ?rq [0..<k]
                  \<longrightarrow> False"
    if "paging render api p st = Some y" for render api p st y
    using that
  proof (induction rule: paging.raw_induct [rotated 1, consumes 1])
    case (1 paging' render api p st y)
    show ?case
    proof (intro allI impI)
      fix k
      assume g: "?good render api" and p: "p = int k + 1"
        and s: "sent st = h @ map ?rq [0..<k]"
      from g obtain body jsondata users us ls page_count page_number c n where
        r: "api (h @ map ?rq [0..<k]) (?rq k) = Reply 200 body (Some jsondata)"
          "subscript jsondata ''users'' = Inr users" "iterate users = Inr us"
          "list_all2 (\<lambda>u l. user_line render u = Inr l) us ls"
          "subscript jsondata ''page_count'' = Inr page_count"
          "subscript jsondata ''page_number'' = Inr page_number"
          "as_int page_count = Some c" "as_int page_number = Some n" and lt: "c < n"
        by blast
      from r(1) s p have r1: "api (sent st) \<lparr>r_meth = GET, r_url = page_url p, r_json = []\<rparr>
                              = Reply 200 body (Some jsondata)"
        by simp
      note b = page_body_ok [where api = api and st = st and p = p and render = render,
          OF r1 r(2-8)]
      let ?st1 = "snd (page_body render api p st)"
      from 1(2) lt have next_pass: "paging' render api (p + 1) ?st1 = Some y"
        by (simp add: b)
      have "sent ?st1 = sent st @ [\<lparr>r_meth = GET, r_url = page_url p, r_json = []\<rparr>]"
        by (simp add: b)
      then have "sent ?st1 = h @ map ?rq [0..<Suc k]"
        by (simp add: s p)
      moreover have "p + 1 = int (Suc k) + 1" using p by simp
      ultimately show False using 1(1) [OF next_pass] g by blast
    qed
  qed
  assume "paging render api (int k + 1) st \<noteq> None"
  then obtain y where "paging render api (int k + 1) st = Some y" by blast
  from never [OF this] good start show False by blast
qed

text \<open>Reading the page number back from the URL of a page request.\<close>

lemma read_nat_snoc: "read_nat (s @ [c]) = 10 * read_nat s + (of_char c - 48)"
  by (simp add: read_nat_def)

lemma read_digit: "d < 10 \<Longrightarrow> (of_char (''0123456789'' ! d) :: nat) - 48 = d"
proof -
  assume "d < 10"
  then have "d \<in> {0, 1, 2, 3, 4, 5, 6, 7, 8, 9}" by auto
  then show ?thesis by auto
qed

lemma read_show_nat: "read_nat (show_nat n) = n"
proof (induction n rule: show_nat.induct)
  case (1 n)
  show ?case
  proof (cases "n < 10")
    case True
    then show ?thesis
      by (subst show_nat.simps) (simp add: read_nat_def read_digit)
  next
    case False
    with 1 show ?thesis
      by (subst show_nat.simps) (simp add: read_nat_snoc read_digit)
  qed
qed

lemma requested_page_url:
  "0 \<le> p \<Longrightarrow> requested_page \<lparr>r_meth = GET, r_url = page_url p, r_json = []\<rparr> = p"
  by (simp add: requested_page_def page_url_def show_int_def read_show_nat)

lemma listusers_api_down:
  "listusers render api_down \<lparr>sent = [], stdout = [], logged = []\<rparr>
     = Some (''ERROR: Could not get the list of Zoom users.'',
             \<lparr>sent = [\<lparr>r_meth = GET,
                        r_url = ''https://api.zoom.us/v2/users?page_size=300&page_number=1'',
                        r_json = []\<rparr>],
               stdout = [WithExn ''ERROR: unknown error while getting the list of Zoom users: ''
                           RequestException],
               logged = [(ERROR, WithExn ''unknown error while getting the list of Zoom users: ''
                                   RequestException)]\<rparr>)"
proof -
  let ?s = "\<lparr>sent = [], stdout = [], logged = []\<rparr>"
  have "paging render api_down 1 ?s
          = Some (Inl RequestException,
                  \<lparr>sent = [\<lparr>r_meth = GET,
                        r_url = ''https://api.zoom.us/v2/users?page_size=300&page_number=1'',
                        r_json = []\<rparr>], stdout = [], logged = []\<rparr>)"
    by (subst paging.simps) (simp add: page_body_def api_down_def send_def page_url_123)
  then show ?thesis
    by (simp add: listusers_def print_line_def logging_def)
qed


text \<open>The users that can be printed, and their lines.\<close>

lemma user_line_Inr_iff:
  "user_line render user = Inr l \<longleftrightarrow>
     (\<exists>kvs a b c d type t f.
        user = JDict kvs
      \<and> map_of kvs ''id'' = Some (JStr a) \<and> map_of kvs ''first_name'' = Some (JStr b)
      \<and> map_of kvs ''last_name'' = Some (JStr c) \<and> map_of kvs ''email'' = Some (JStr d)
      \<and> map_of kvs ''type'' = Some type \<and> render type = Inr t
      \<and> map_of kvs ''status'' = Some (JStr f)
      \<and> l = a @ '','' @ b @ '','' @ c @ '','' @ d @ '','' @ t @ '','' @ f)"
  by (cases user)
     (auto simp: user_line_def split: option.splits sum.splits json.splits)

text \<open>
  C8, as amended. When the replies to the first three page requests have status 200 and
  decode to objects with \<open>page_count = 3\<close>, with \<open>page_number\<close> 1, 2 and 3, and with a list
  \<open>users\<close> whose entries can all be printed (objects with the fields \<open>id\<close>, \<open>first_name\<close>,
  \<open>last_name\<close>, \<open>email\<close> and \<open>status\<close> as strings and a \<open>type\<close> that \<open>str\<close> renders),
  \<open>listusers\<close> sends exactly the three requests for pages 1, 2 and 3 with page size 300,
  returns the success result, and prints the header once, followed by one line per user:
  the users of page 1, then those of page 2, then those of page 3.
\<close>

theorem listusers_three_pages:
  assumes rqs:
      "rq1 = \<lparr>r_meth = GET,
               r_url = ''https://api.zoom.us/v2/users?page_size=300&page_number=1'', r_json = []\<rparr>"
      "rq2 = \<lparr>r_meth = GET,
               r_url = ''https://api.zoom.us/v2/users?page_size=300&page_number=2'', r_json = []\<rparr>"
      "rq3 = \<lparr>r_meth = GET,
               r_url = ''https://api.zoom.us/v2/users?page_size=300&page_number=3'', r_json = []\<rparr>"
    and replies:
      "api (sent st) rq1 = Reply 200 body1 (Some (JDict page1))"
      "api (sent st @ [rq1]) rq2 = Reply 200 body2 (Some (JDict page2))"
      "api (sent st @ [rq1, rq2]) rq3 = Reply 200 body3 (Some (JDict page3))"
    and count:
      "map_of page1 ''page_count'' = Some (JInt 3)"
      "map_of page2 ''page_count'' = Some (JInt 3)"
      "map_of page3 ''page_count'' = Some (JInt 3)"
    and echo:
      "map_of page1 ''page_number'' = Some (JInt 1)"
      "map_of page2 ''page_number'' = Some (JInt 2)"
      "map_of page3 ''page_number'' = Some (JInt 3)"
    and users:
      "map_of page1 ''users'' = Some (JList users1)"
      "map_of page2 ''users'' = Some (JList users2)"
      "map_of page3 ''users'' = Some (JList users3)"
    and lines:
      "list_all2 (\<lambda>u l. user_line render u = Inr l) users1 lines1"
      "list_all2 (\<lambda>u l. user_line render u = Inr l) users2 lines2"
      "list_all2 (\<lambda>u l. user_line render u = Inr l) users3 lines3"
  shows "\<exists>st'. listusers render api st = Some (''SUCCESS: got the list of Zoom users.'', st')
           \<and> sent st' = sent st @ [rq1, rq2, rq3]
           \<and> stdout st' = stdout st
                @ Plain ''id,first_name,last_name,email,type,status''
                  # map Plain (lines1 @ lines2 @ lines3)
           \<and> length lines1 = length users1 \<and> length lines2 = length users2
           \<and> length lines3 = length users3"
proof -
  note b1 = page_body_list_ok [of api st 1, unfolded page_url_123, folded rqs,
      OF replies(1) users(1) lines(1) count(1) echo(1)]
  let ?st1 = "snd (page_body render api 1 st)"
  have s1: "sent ?st1 = sent st @ [rq1]" by (simp add: b1)
  note b2 = page_body_list_ok [of api ?st1 2, unfolded page_url_123 s1, folded rqs,
      OF replies(2) users(2) lines(2) count(2) echo(2)]
  let ?st2 = "snd (page_body render api 2 ?st1)"
  have s2: "sent ?st2 = sent st @ [rq1, rq2]" by (simp add: b2 s1)
  note b3 = page_body_list_ok [of api ?st2 3, unfolded page_url_123 s2, folded rqs,
      OF replies(3) users(3) lines(3) count(3) echo(3)]
  let ?st3 = "snd (page_body render api 3 ?st2)"
  have "paging render api 3 ?st2 = Some (Inr ''SUCCESS: got the list of Zoom users.'', ?st3)"
    by (subst paging.simps) (simp add: b3)
  then have "paging render api 2 ?st1 = Some (Inr ''SUCCESS: got the list of Zoom users.'', ?st3)"
    by (subst paging.simps) (simp add: b2)
  then have "paging render api 1 st = Some (Inr ''SUCCESS: got the list of Zoom users.'', ?st3)"
    by (subst paging.simps) (simp add: b1)
  then have "listusers render api st = Some (''SUCCESS: got the list of Zoom users.'', ?st3)"
    by (simp add: listusers_def)
  moreover have "sent ?st3 = sent st @ [rq1, rq2, rq3]"
    by (simp add: b3 s2)
  moreover have "stdout ?st3 = stdout st @ Plain ''id,first_name,last_name,email,type,status''
                  # map Plain (lines1 @ lines2 @ lines3)"
  proof -
    have o1: "stdout ?st1 = stdout st @ Plain ''id,first_name,last_name,email,type,status''
                # map Plain lines1"
      by (simp add: b1)
    have o2: "stdout ?st2 = stdout ?st1 @ map Plain lines2"
      by (simp add: b2)
    have o3: "stdout ?st3 = stdout ?st2 @ map Plain lines3"
      by (simp add: b3)
    show ?thesis by (simp add: o3 o2 o1)
  qed
  ultimately show ?thesis
    using lines by (auto dest: list_all2_lengthD)
qed

theorem listusers_three_pages_witness:
  "(let user1 = JDict [(''id'', JStr ''u1''), (''first_name'', JStr ''Ann''),
                       (''last_name'', JStr ''Lee''), (''email'', JStr ''ann@xyz.com''),
                       (''type'', JInt 1), (''status'', JStr ''active'')];
        user3 = JDict [(''id'', JStr ''u3''), (''first_name'', JStr ''Bob''),
                       (''last_name'', JStr ''Ray''), (''email'', JStr ''bob@xyz.com''),
                       (''type'', JInt 2), (''status'', JStr ''active'')];
        page = (\<lambda>users n. Reply 200 [] (Some (JDict [(''page_count'', JInt 3),
                   (''page_number'', JInt n), (''users'', JList users)])));
        result = listusers render_scalar
                   (\<lambda>h rq. [page [user1] 1, page [] 2, page [user3] 3] ! length h)
                   \<lparr>sent = [], stdout = [], logged = []\<rparr>
    in map_option fst result = Some ''SUCCESS: got the list of Zoom users.''
       \<and> map_option (map r_url \<circ> sent \<circ> snd) result
           = Some [''https://api.zoom.us/v2/users?page_size=300&page_number=1'',
                   ''https://api.zoom.us/v2/users?page_size=300&page_number=2'',
                   ''https://api.zoom.us/v2/users?page_size=300&page_number=3'']
       \<and> map_option (stdout \<circ> snd) result
           = Some [Plain ''id,first_name,last_name,email,type,status'',
                   Plain ''u1,Ann,Lee,ann@xyz.com,1,active'',
                   Plain ''u3,Bob,Ray,bob@xyz.com,2,active''])"
proof -
  let ?user1 = "JDict [(''id'', JStr ''u1''), (''first_name'', JStr ''Ann''),
                       (''last_name'', JStr ''Lee''), (''email'', JStr ''ann@xyz.com''),
                       (''type'', JInt 1), (''status'', JStr ''active'')]"
  let ?user3 = "JDict [(''id'', JStr ''u3''), (''first_name'', JStr ''Bob''),
                       (''last_name'', JStr ''Ray''), (''email'', JStr ''bob@xyz.com''),
                       (''type'', JInt 2), (''status'', JStr ''active'')]"
  let ?kvs = "\<lambda>users n. [(''page_count'', JInt 3), (''page_number'', JInt n),
                          (''users'', JList users)]"
  let ?page = "\<lambda>users n. Reply 200 [] (Some (JDict (?kvs users n)))"
  let ?api = "\<lambda>(h :: request list) (rq :: request).
                [?page [?user1] 1, ?page [] 2, ?page [?user3] 3] ! length h"
  let ?s = "\<lparr>sent = [], stdout = [], logged = []\<rparr>"
  have l1: "list_all2 (\<lambda>u l. user_line render_scalar u = Inr l) [?user1]
              [''u1,Ann,Lee,ann@xyz.com,1,active'']"
    by (simp add: user_line_def show_int_def show_nat.simps)
  have l2: "list_all2 (\<lambda>u l. user_line render_scalar u = Inr l) [] []"
    by simp
  have l3: "list_all2 (\<lambda>u l. user_line render_scalar u = Inr l) [?user3]
              [''u3,Bob,Ray,bob@xyz.com,2,active'']"
    by (simp add: user_line_def show_int_def show_nat.simps)
  from listusers_three_pages [of _ _ _ ?api ?s "[]" "?kvs [?user1] 1" "[]" "?kvs [] 2" "[]"
      "?kvs [?user3] 3" "[?user1]" "[]" "[?user3]" render_scalar,
      OF refl refl refl _ _ _ _ _ _ _ _ _ _ _ _ l1 l2 l3]
  show ?thesis
    by (auto simp: Let_def)
qed

text \<open>
  C8 as first stated asks nothing of the users. With every reply at status 200,
  \<open>page_count = 3\<close> and the page number echoed, a user without a \<open>status\<close> makes the
  first pass raise \<open>KeyError\<close>: \<open>listusers\<close> sends one request, prints the header and the
  error, and returns the error result.
\<close>

theorem listusers_stops_at_malformed_user:
  "listusers render_scalar api_user_without_status \<lparr>sent = [], stdout = [], logged = []\<rparr>
     = Some (''ERROR: Could not get the list of Zoom users.'',
             \<lparr>sent = [\<lparr>r_meth = GET,
                        r_url = ''https://api.zoom.us/v2/users?page_size=300&page_number=1'',
                        r_json = []\<rparr>],
               stdout = [Plain ''id,first_name,last_name,email,type,status'',
                         WithExn ''ERROR: unknown error while getting the list of Zoom users: ''
                           (KeyError ''status'')],
               logged = [(ERROR, WithExn ''unknown error while getting the list of Zoom users: ''
                                   (KeyError ''status''))]\<rparr>)"
proof -
  let ?s = "\<lparr>sent = [], stdout = [], logged = []\<rparr>"
  have "page_body render_scalar api_user_without_status 1 ?s
          = (Threw (KeyError ''status''),
             \<lparr>sent = [\<lparr>r_meth = GET,
                        r_url = ''https://api.zoom.us/v2/users?page_size=300&page_number=1'',
                        r_json = []\<rparr>],
               stdout = [Plain ''id,first_name,last_name,email,type,status''],
               logged = []\<rparr>)"
    by (simp add: page_body_def api_user_without_status_def send_def page_url_123
          user_line_def print_line_def)
  then have "paging render_scalar api_user_without_status 1 ?s
          = Some (Inl (KeyError ''status''),
             \<lparr>sent = [\<lparr>r_meth = GET,
                        r_url = ''https://api.zoom.us/v2/users?page_size=300&page_number=1'',
                        r_json = []\<rparr>],
               stdout = [Plain ''id,first_name,last_name,email,type,status''],
               logged = []\<rparr>)"
    by (subst paging.simps) simp
  then show ?thesis by (simp add: listusers_def print_line_def logging_def)
qed

text \<open>
  C9, as amended. When \<open>listusers\<close> returns, its result is the success result and the
  reply to its last request had status 200 with \<open>page_count\<close> equal to the \<open>page_number\<close>
  it reports, or it is the error result of a reply with another status than 200, or it is
  the error result of an exception raised in the loop. When every reply that \<open>listusers\<close>
  receives (the reply to the request for page \<open>k + 1\<close>, sent after the requests for the
  pages 1 to \<open>k\<close>) has status 200 and is a page whose users can all be printed and whose
  \<open>page_count\<close> is less than the \<open>page_number\<close> the reply itself reports, \<open>PagesLeft\<close> is
  negative after every pass and \<open>listusers\<close> never returns.
\<close>

theorem listusers_termination:
  "(\<forall>res st'. listusers render api st = Some (res, st') \<longrightarrow>
       (res = ''SUCCESS: got the list of Zoom users.''
          \<and> (\<exists>h rq body jsondata page_count page_number i.
                 sent st' = h @ [rq] \<and> api h rq = Reply 200 body (Some jsondata)
               \<and> subscript jsondata ''page_count'' = Inr page_count
               \<and> subscript jsondata ''page_number'' = Inr page_number
               \<and> as_int page_count = Some i \<and> as_int page_number = Some i))
     \<or> (res = ''ERROR: did not get list of Zoom users.''
          \<and> (\<exists>h rq status body js. sent st' = h @ [rq] \<and> api h rq = Reply status body js
                 \<and> status \<noteq> 200))
     \<or> (res = ''ERROR: Could not get the list of Zoom users.''
          \<and> (\<exists>e st1. paging render api 1 st = Some (Inl e, st1))))
   \<and> ((\<forall>k. \<exists>body jsondata users us ls page_count page_number c n.
           api (sent st
                  @ map (\<lambda>i. \<lparr>r_meth = GET, r_url = page_url (int i + 1), r_json = []\<rparr>) [0..<k])
               \<lparr>r_meth = GET, r_url = page_url (int k + 1), r_json = []\<rparr>
             = Reply 200 body (Some jsondata)
         \<and> subscript jsondata ''users'' = Inr users \<and> iterate users = Inr us
         \<and> list_all2 (\<lambda>u l. user_line render u = Inr l) us ls
         \<and> subscript jsondata ''page_count'' = Inr page_count
         \<and> subscript jsondata ''page_number'' = Inr page_number
         \<and> as_int page_count = Some c \<and> as_int page_number = Some n \<and> c < n)
       \<longrightarrow> listusers render api st = None)"
proof (intro conjI allI impI)
  fix res st'
  assume l: "listusers render api st = Some (res, st')"
  then obtain y where p: "paging render api 1 st = Some y"
    by (auto simp: listusers_def split: option.splits)
  from paging_Some [OF p] l p
  show "(res = ''SUCCESS: got the list of Zoom users.''
          \<and> (\<exists>h rq body jsondata page_count page_number i.
                 sent st' = h @ [rq] \<and> api h rq = Reply 200 body (Some jsondata)
               \<and> subscript jsondata ''page_count'' = Inr page_count
               \<and> subscript jsondata ''page_number'' = Inr page_number
               \<and> as_int page_count = Some i \<and> as_int page_number = Some i))
     \<or> (res = ''ERROR: did not get list of Zoom users.''
          \<and> (\<exists>h rq status body js. sent st' = h @ [rq] \<and> api h rq = Reply status body js
                 \<and> status \<noteq> 200))
     \<or> (res = ''ERROR: Could not get the list of Zoom users.''
          \<and> (\<exists>e st1. paging render api 1 st = Some (Inl e, st1)))"
    by (auto simp: listusers_def)
next
  assume good: "\<forall>k. \<exists>body jsondata users us ls page_count page_number c n.
           api (sent st
                  @ map (\<lambda>i. \<lparr>r_meth = GET, r_url = page_url (int i + 1), r_json = []\<rparr>) [0..<k])
               \<lparr>r_meth = GET, r_url = page_url (int k + 1), r_json = []\<rparr>
             = Reply 200 body (Some jsondata)
         \<and> subscript jsondata ''users'' = Inr users \<and> iterate users = Inr us
         \<and> list_all2 (\<lambda>u l. user_line render u = Inr l) us ls
         \<and> subscript jsondata ''page_count'' = Inr page_count
         \<and> subscript jsondata ''page_number'' = Inr page_number
         \<and> as_int page_count = Some c \<and> as_int page_number = Some n \<and> c < n"
  have "paging render api (int 0 + 1) st = None"
  proof (rule paging_None [where h = "sent st"])
    show "sent st = sent st
            @ map (\<lambda>i. \<lparr>r_meth = GET, r_url = page_url (int i + 1), r_json = []\<rparr>) [0..<0]"
      by simp
  next
    fix k
    from good show "\<exists>body jsondata users us ls page_count page_number c n.
           api (sent st
                  @ map (\<lambda>i. \<lparr>r_meth = GET, r_url = page_url (int i + 1), r_json = []\<rparr>) [0..<k])
               \<lparr>r_meth = GET, r_url = page_url (int k + 1), r_json = []\<rparr>
             = Reply 200 body (Some jsondata)
         \<and> subscript jsondata ''users'' = Inr users \<and> iterate users = Inr us
         \<and> list_all2 (\<lambda>u l. user_line render u = Inr l) us ls
         \<and> subscript jsondata ''page_count'' = Inr page_count
         \<and> subscript jsondata ''page_number'' = Inr page_number
         \<and> as_int page_count = Some c \<and> as_int page_number = Some n \<and> c < n"
      by (rule spec)
  qed
  then show "listusers render api st = None"
    by (simp add: listusers_def)
qed

theorem listusers_termination_witness:
  "listusers render_scalar api_echo_no_pages \<lparr>sent = [], stdout = [], logged = []\<rparr> = None
   \<and> listusers render_scalar api_down \<lparr>sent = [], stdout = [], logged = []\<rparr>
       = Some (''ERROR: Could not get the list of Zoom users.'',
             \<lparr>sent = [\<lparr>r_meth = GET,
                        r_url = ''https://api.zoom.us/v2/users?page_size=300&page_number=1'',
                        r_json = []\<rparr>],
               stdout = [WithExn ''ERROR: unknown error while getting the list of Zoom users: ''
                           RequestException],
               logged = [(ERROR, WithExn ''unknown error while getting the list of Zoom users: ''
                                   RequestException)]\<rparr>)
   \<and> (\<exists>e st1. paging render_scalar api_down 1 \<lparr>sent = [], stdout = [], logged = []\<rparr>
                  = Some (Inl e, st1))"
proof -
  let ?s = "\<lparr>sent = [], stdout = [], logged = []\<rparr>"
  let ?rq = "\<lambda>i. \<lparr>r_meth = GET, r_url = page_url (int i + 1), r_json = []\<rparr>"
  have good: "\<forall>k. \<exists>body jsondata users us ls page_count page_number c n.
           api_echo_no_pages (sent ?s @ map ?rq [0..<k]) (?rq k)
             = Reply 200 body (Some jsondata)
         \<and> subscript jsondata ''users'' = Inr users \<and> iterate users = Inr us
         \<and> list_all2 (\<lambda>u l. user_line render_scalar u = Inr l) us ls
         \<and> subscript jsondata ''page_count'' = Inr page_count
         \<and> subscript jsondata ''page_number'' = Inr page_number
         \<and> as_int page_count = Some c \<and> as_int page_number = Some n \<and> c < n"
  proof (intro allI)
    fix k :: nat
    let ?page = "JDict [(''page_count'', JInt 0), (''page_number'', JInt (int k + 1)),
                        (''users'', JList [])]"
    have e: "requested_page (?rq k) = int k + 1"
      by (rule requested_page_url) simp
    have "api_echo_no_pages (sent ?s @ map ?rq [0..<k]) (?rq k) = Reply 200 [] (Some ?page)
         \<and> subscript ?page ''users'' = Inr (JList []) \<and> iterate (JList []) = Inr []
         \<and> list_all2 (\<lambda>u l. user_line render_scalar u = Inr l) [] []
         \<and> subscript ?page ''page_count'' = Inr (JInt 0)
         \<and> subscript ?page ''page_number'' = Inr (JInt (int k + 1))
         \<and> as_int (JInt 0) = Some 0 \<and> as_int (JInt (int k + 1)) = Some (int k + 1)
         \<and> 0 < int k + 1"
      by (simp add: api_echo_no_pages_def e)
    then show "\<exists>body jsondata users us ls page_count page_number c n.
           api_echo_no_pages (sent ?s @ map ?rq [0..<k]) (?rq k)
             = Reply 200 body (Some jsondata)
         \<and> subscript jsondata ''users'' = Inr users \<and> iterate users = Inr us
         \<and> list_all2 (\<lambda>u l. user_line render_scalar u = Inr l) us ls
         \<and> subscript jsondata ''page_count'' = Inr page_count
         \<and> subscript jsondata ''page_number'' = Inr page_number
         \<and> as_int page_count = Some c \<and> as_int page_number = Some n \<and> c < n"
      by blast
  qed
  note t = listusers_termination [of render_scalar _ ?s]
  from t [of api_echo_no_pages] good
  have 1: "listusers render_scalar api_echo_no_pages ?s = None" by blast
  note 2 = listusers_api_down [of render_scalar]
  from t [of api_down] 2
  have 3: "\<exists>e st1. paging render_scalar api_down 1 ?s = Some (Inl e, st1)" by simp
  from 1 2 3 show ?thesis by blast
qed

text \<open>
  C9 as first stated compares \<open>page_count\<close> with the number of the requested page. The
  loop reads the \<open>page_number\<close> of the reply instead: an API that answers the request for
  page 1 with \<open>page_count = 0\<close> and \<open>page_number = 0\<close> reports fewer pages than the page
  requested, and \<open>listusers\<close> returns after this one request.
\<close>

theorem listusers_stops_at_reported_page:
  "listusers render_scalar api_page_0_of_0 \<lparr>sent = [], stdout = [], logged = []\<rparr>
     = Some (''SUCCESS: got the list of Zoom users.'',
             \<lparr>sent = [\<lparr>r_meth = GET,
                        r_url = ''https://api.zoom.us/v2/users?page_size=300&page_number=1'',
                        r_json = []\<rparr>],
               stdout = [Plain ''id,first_name,last_name,email,type,status''],
               logged = [(INFO, Plain ''got the list of Zoom users'')]\<rparr>)"
proof -
  let ?s = "\<lparr>sent = [], stdout = [], logged = []\<rparr>"
  have "page_body render_scalar api_page_0_of_0 1 ?s
          = (Looped 0,
             \<lparr>sent = [\<lparr>r_meth = GET,
                        r_url = ''https://api.zoom.us/v2/users?page_size=300&page_number=1'',
                        r_json = []\<rparr>],
               stdout = [Plain ''id,first_name,last_name,email,type,status''],
               logged = [(INFO, Plain ''got the list of Zoom users'')]\<rparr>)"
    by (simp add: page_body_def api_page_0_of_0_def send_def page_url_123 py_sub_def
          print_line_def logging_def)
  then have "paging render_scalar api_page_0_of_0 1 ?s
          = Some (Inr ''SUCCESS: got the list of Zoom users.'',
             \<lparr>sent = [\<lparr>r_meth = GET,
                        r_url = ''https://api.zoom.us/v2/users?page_size=300&page_number=1'',
                        r_json = []\<rparr>],
               stdout = [Plain ''id,first_name,last_name,email,type,status''],
               logged = [(INFO, Plain ''got the list of Zoom users'')]\<rparr>)"
    by (subst paging.simps) simp
  then show ?thesis by (simp add: listusers_def)
qed

subsection \<open>The batch runner\<close>

lemmas main_defs = main_def dispatch_def delete_def api_down_def

text \<open>
  When the loop of \<open>main\<close> runs to the end of the list, it has added one row per action,
  in the order of the actions, each with the action and the user name of its action.
\<close>

lemma main_loop_rows:
  "main_loop params render api rows out st = Some (None, out', st') \<Longrightarrow>
     \<exists>results. length results = length rows
        \<and> out' = out @ map (\<lambda>(row, result). [a_action row, a_username row, result])
                         (zip rows results)"
proof (induction rows arbitrary: out st)
  case Nil
  then show ?case by simp
next
  case (Cons row rows)
  from Cons.prems obtain result st1 where
    d: "dispatch params render api row st = Some (Inr result, st1)"
    and l: "main_loop params render api rows (out @ [[a_action row, a_username row, result]]) st1
              = Some (None, out', st')"
    by (auto split: option.splits sum.splits if_splits)
  from Cons.IH [OF l] obtain results where
    "length results = length rows"
    "out' = (out @ [[a_action row, a_username row, result]])
              @ map (\<lambda>(row, result). [a_action row, a_username row, result]) (zip rows results)"
    by blast
  then show ?case
    by (intro exI [of _ "result # results"]) simp
qed

text \<open>
  A user name outside ASCII never reaches a handler: \<open>str\<close> raises in \<open>main\<close>.
\<close>

lemma dispatch_not_ascii:
  "a_action row = ''update'' \<or> a_action row = ''delete'' \<Longrightarrow> \<not> is_ascii (a_username row) \<Longrightarrow>
     dispatch params render api row st = Some (Inl UnicodeEncodeError, st)"
  by (auto simp: dispatch_def)

text \<open>
  C1. When the lookup request raises, \<open>findUserId\<close> handles the exception and then raises
  \<open>UnboundLocalError\<close> at \<open>return id\<close>. \<open>update\<close> and \<open>delete\<close> call it outside their \<open>try\<close>
  blocks, so the exception leaves the handler; in \<open>main\<close> it ends the loop over the
  actions: of two delete actions the second is never run, and no row is written.
\<close>

theorem handlers_raise_on_failed_lookup:
  "update [P_username, P_newusername, P_loginDisabled, P_givenName, P_sn] api_down
       ''joe'' ''jim'' ''False'' ''Joe'' ''Doe'' \<lparr>sent = [], stdout = [], logged = []\<rparr>
     = (Inl UnboundLocalError,
        \<lparr>sent = [\<lparr>r_meth = GET, r_url = ''https://api.zoom.us/v2/users/joe@xyz.com'', r_json = []\<rparr>],
          stdout = [WithExn ''ERROR: problem with user search in Zoom: '' RequestException],
          logged = [(ERROR, WithExn ''problem searching for joe@xyz.com in Zoom: ''
                              RequestException)]\<rparr>)
   \<and> delete api_down ''joe'' \<lparr>sent = [], stdout = [], logged = []\<rparr>
     = (Inl UnboundLocalError,
        \<lparr>sent = [\<lparr>r_meth = GET, r_url = ''https://api.zoom.us/v2/users/joe@xyz.com'', r_json = []\<rparr>],
          stdout = [WithExn ''ERROR: problem with user search in Zoom: '' RequestException],
          logged = [(ERROR, WithExn ''problem searching for joe@xyz.com in Zoom: ''
                              RequestException)]\<rparr>)
   \<and> main [P_username, P_newusername, P_loginDisabled, P_givenName, P_sn] render_scalar api_down
       [\<lparr>a_action = ''delete'', a_username = ''joe'', a_newusername = ''joe'',
          a_loginDisabled = ''False'', a_givenName = ''Joe'', a_sn = ''Doe''\<rparr>,
        \<lparr>a_action = ''delete'', a_username = ''ann'', a_newusername = ''ann'',
          a_loginDisabled = ''False'', a_givenName = ''Ann'', a_sn = ''Lee''\<rparr>]
       \<lparr>sent = [], stdout = [], logged = []\<rparr>
     = Some ([[''action'', ''username'', ''result'']],
        \<lparr>sent = [\<lparr>r_meth = GET, r_url = ''https://api.zoom.us/v2/users/joe@xyz.com'', r_json = []\<rparr>],
          stdout = [WithExn ''ERROR: problem with user search in Zoom: '' RequestException,
                    WithExn ''ERROR: unknown error while processing line: '' UnboundLocalError],
          logged = [(ERROR, WithExn ''problem searching for joe@xyz.com in Zoom: ''
                              RequestException),
                    (CRITICAL, WithExn ''unknown error while processing line: ''
                                 UnboundLocalError)]\<rparr>)"
  by (simp add: main_defs run_defs)

text \<open>
  C2. With the API down, a batch of three actions (an unrecognized one and two deletes)
  leaves one data row in the output, not three: the first delete raises out of its
  handler and \<open>main\<close> stops.
\<close>

theorem main_writes_fewer_rows:
  "main [P_username, P_newusername, P_loginDisabled, P_givenName, P_sn] render_scalar api_down
       [\<lparr>a_action = ''create'', a_username = ''bob'', a_newusername = ''bob'',
          a_loginDisabled = ''False'', a_givenName = ''Bob'', a_sn = ''Ray''\<rparr>,
        \<lparr>a_action = ''delete'', a_username = ''joe'', a_newusername = ''joe'',
          a_loginDisabled = ''False'', a_givenName = ''Joe'', a_sn = ''Doe''\<rparr>,
        \<lparr>a_action = ''delete'', a_username = ''ann'', a_newusername = ''ann'',
          a_loginDisabled = ''False'', a_givenName = ''Ann'', a_sn = ''Lee''\<rparr>]
       \<lparr>sent = [], stdout = [], logged = []\<rparr>
     = Some ([[''action'', ''username'', ''result''],
              [''create'', ''bob'', ''ERROR: Unrecognized action.'']],
        \<lparr>sent = [\<lparr>r_meth = GET, r_url = ''https://api.zoom.us/v2/users/joe@xyz.com'', r_json = []\<rparr>],
          stdout = [Plain ''ERROR: unrecognized action: create'',
                    WithExn ''ERROR: problem with user search in Zoom: '' RequestException,
                    WithExn ''ERROR: unknown error while processing line: '' UnboundLocalError],
          logged = [(ERROR, Plain ''unrecognized action: create''),
                    (ERROR, WithExn ''problem searching for joe@xyz.com in Zoom: ''
                              RequestException),
                    (CRITICAL, WithExn ''unknown error while processing line: ''
                                 UnboundLocalError)]\<rparr>)"
  by (simp add: main_defs run_defs)

end
